theory Spec2Isabelle
  imports Main "HOL-Library.Sublist" "HOL-Library.Word"
begin

section \<open>JavaScript strings\<close>

text \<open>
  A JavaScript string is a sequence of UTF-16 code units; \<open>length\<close>, \<open>slice\<close>,
  \<open>charAt\<close> and the regular expressions of the source (none has the \<open>u\<close> flag) all
  work on code units. A code unit is modelled as a natural number.
\<close>

type_synonym jsstring = "nat list"

definition js :: "string \<Rightarrow> jsstring" where
  "js s = map of_char s"

text \<open>
  ECMAScript \<open>WhiteSpace\<close> and \<open>LineTerminator\<close> code units: what \<open>trim()\<close> strips and
  what \<open>\s\<close> matches.
\<close>

definition isWhiteSpace :: "nat \<Rightarrow> bool" where
  "isWhiteSpace c \<longleftrightarrow>
     c \<in> set [9, 10, 11, 12, 13, 32, 160, 5760, 8232, 8233, 8239, 8287, 12288, 65279]
     \<or> (8192 \<le> c \<and> c \<le> 8202)"

definition trim :: "jsstring \<Rightarrow> jsstring" where
  "trim s = rev (dropWhile isWhiteSpace (rev (dropWhile isWhiteSpace s)))"

definition asciiUpper :: "nat \<Rightarrow> nat" where
  "asciiUpper c = (if 97 \<le> c \<and> c \<le> 122 then c - 32 else c)"

definition asciiLower :: "nat \<Rightarrow> nat" where
  "asciiLower c = (if 65 \<le> c \<and> c \<le> 90 then c + 32 else c)"

text \<open>
  \<open>toUpperCase()\<close> of a one-unit string and \<open>toLowerCase()\<close> of a string. On ASCII
  the result is fixed by the language; beyond ASCII it is the Unicode case table of the
  runtime, which is taken as a parameter (\<open>ucx\<close> for one code unit, \<open>lcx\<close> for a whole
  string, since lower-casing is context sensitive there).
\<close>

definition charToUpperCase :: "(nat \<Rightarrow> jsstring) \<Rightarrow> nat \<Rightarrow> jsstring" where
  "charToUpperCase ucx c = (if c < 128 then [asciiUpper c] else ucx c)"

definition toLowerCase :: "(jsstring \<Rightarrow> jsstring) \<Rightarrow> jsstring \<Rightarrow> jsstring" where
  "toLowerCase lcx s = (if list_all (\<lambda>c. c < 128) s then map asciiLower s else lcx s)"

text \<open>\<open>Array.prototype.join\<close> on an array of strings.\<close>

fun joinWith :: "jsstring \<Rightarrow> jsstring list \<Rightarrow> jsstring" where
  "joinWith sep [] = []"
| "joinWith sep [x] = x"
| "joinWith sep (x # y # ys) = x @ sep @ joinWith sep (y # ys)"

section \<open>Enhancement engine: bullet normalization\<close>

definition strongVerbs :: "jsstring list" where
  "strongVerbs = map js
     [''Led'', ''Built'', ''Implemented'', ''Optimized'', ''Designed'', ''Automated'',
      ''Improved'', ''Delivered'', ''Migrated'', ''Refactored'', ''Deployed'', ''Mentored'',
      ''Analyzed'', ''Architected'', ''Reduced'']"

text \<open>
  The third alternative of the split expression and the truncation marker are, in the
  source file as it is, three code units each: U+201A U+00C4 U+00A2 and
  U+201A U+00C4 U+00B6.
\<close>

definition bulletGlyph :: jsstring where
  "bulletGlyph = [8218, 196, 162]"

definition truncationMarker :: jsstring where
  "truncationMarker = [8218, 196, 182]"

text \<open>
  \<open>split(/\n|\r|<glyph>|\u2022|\-|\u2013|\u2014/)\<close>: the alternatives are tried in this
  order at every position; \<open>cur\<close> is the piece collected since the last separator.
\<close>

fun splitBullets :: "jsstring \<Rightarrow> jsstring \<Rightarrow> jsstring list" where
  "splitBullets cur [] = [cur]"
| "splitBullets cur (c # cs) =
     (if c = 10 then cur # splitBullets [] cs
      else if c = 13 then cur # splitBullets [] cs
      else if prefix bulletGlyph (c # cs) then cur # splitBullets [] (drop 2 cs)
      else if c = 8226 then cur # splitBullets [] cs
      else if c = 45 then cur # splitBullets [] cs
      else if c = 8211 then cur # splitBullets [] cs
      else if c = 8212 then cur # splitBullets [] cs
      else splitBullets (cur @ [c]) cs)"

text \<open>\<open>x.charAt(0).toUpperCase() + x.slice(1)\<close>\<close>

definition capitalizeFirst :: "(nat \<Rightarrow> jsstring) \<Rightarrow> jsstring \<Rightarrow> jsstring" where
  "capitalizeFirst ucx x = (case x of [] \<Rightarrow> [] | c # cs \<Rightarrow> charToUpperCase ucx c @ cs)"

text \<open>\<open>t.replace(/[.;:,\s]+$/g, "")\<close>\<close>

definition isTrailing :: "nat \<Rightarrow> bool" where
  "isTrailing c \<longleftrightarrow> c = 46 \<or> c = 59 \<or> c = 58 \<or> c = 44 \<or> isWhiteSpace c"

definition stripTrailing :: "jsstring \<Rightarrow> jsstring" where
  "stripTrailing t = rev (dropWhile isTrailing (rev t))"

text \<open>
  \<open>/^(Led|Built|...|Reduced)\b/i.test(t)\<close>. Without the \<open>u\<close> flag a case-insensitive
  match of an ASCII letter accepts exactly the two ASCII cases of that letter, and a
  word character is one of \<open>[A-Za-z0-9_]\<close>; the boundary after the verb holds at the end
  of the string or before a non-word character.
\<close>

definition isWordChar :: "nat \<Rightarrow> bool" where
  "isWordChar c \<longleftrightarrow> (48 \<le> c \<and> c \<le> 57) \<or> (65 \<le> c \<and> c \<le> 90) \<or> c = 95 \<or> (97 \<le> c \<and> c \<le> 122)"

definition matchesVerb :: "jsstring \<Rightarrow> jsstring \<Rightarrow> bool" where
  "matchesVerb v t \<longleftrightarrow>
     length v \<le> length t
     \<and> map asciiUpper (take (length v) t) = map asciiUpper v
     \<and> (case drop (length v) t of [] \<Rightarrow> True | c # _ \<Rightarrow> \<not> isWordChar c)"

definition hasVerb :: "jsstring \<Rightarrow> bool" where
  "hasVerb t = list_ex (\<lambda>v. matchesVerb v t) strongVerbs"

text \<open>\<open>t.replace(/\s+/g, " ")\<close>\<close>

function compactWs :: "jsstring \<Rightarrow> jsstring" where
  "compactWs [] = []"
| "compactWs (c # cs) =
     (if isWhiteSpace c then 32 # compactWs (dropWhile isWhiteSpace cs)
      else c # compactWs cs)"
  by pat_completeness auto
termination
  by (relation "measure length") (auto simp: length_dropWhile_le less_Suc_eq_le)

text \<open>\<open>t.length > 220 ? t.slice(0, 220) + marker : t\<close>\<close>

definition truncateBullet :: "jsstring \<Rightarrow> jsstring" where
  "truncateBullet t = (if length t > 220 then take 220 t @ truncationMarker else t)"

text \<open>The callback of \<open>lines.map((x, i) => ...)\<close>.\<close>

definition formatBullet :: "(nat \<Rightarrow> jsstring) \<Rightarrow> nat \<Rightarrow> jsstring \<Rightarrow> jsstring" where
  "formatBullet ucx i x =
     (let t = capitalizeFirst ucx x;
          t = stripTrailing t;
          t = (if \<not> hasVerb t then strongVerbs ! (i mod length strongVerbs) @ [32] @ t else t);
          t = compactWs t
      in truncateBullet t)"

definition bulletLines :: "jsstring \<Rightarrow> jsstring list" where
  "bulletLines text = filter (\<lambda>x. x \<noteq> []) (map trim (splitBullets [] text))"

definition bullets :: "(nat \<Rightarrow> jsstring) \<Rightarrow> jsstring \<Rightarrow> jsstring list" where
  "bullets ucx text = map (\<lambda>(i, x). formatBullet ucx i x) (enumerate 0 (bulletLines text))"

definition normalizeBullets :: "(nat \<Rightarrow> jsstring) \<Rightarrow> jsstring \<Rightarrow> jsstring" where
  "normalizeBullets ucx text = joinWith [10] (take 6 (bullets ucx text))"

text \<open>The lines of an emitted text: its pieces between line feeds.\<close>

fun linesOf :: "jsstring \<Rightarrow> jsstring list" where
  "linesOf [] = [[]]"
| "linesOf (c # cs) =
     (if c = 10 then [] # linesOf cs
      else (case linesOf cs of [] \<Rightarrow> [[c]] | l # ls \<Rightarrow> (c # l) # ls))"

section \<open>Resume data\<close>

text \<open>
  The interfaces of the repository. The draft is handled as a loosely typed object: the
  code guards every access (\<open>Array.isArray(clone.skills)\<close>, \<open>s?.name || s\<close>,
  \<open>w?.description || ""\<close>, \<open>resumeData.template || ...\<close>), so a field that the code
  guards is optional here (\<open>None\<close> is an absent or null field), and an entry of the
  skills array is an object, a bare string or null.
\<close>

record personal_info =
  fullName :: jsstring
  email :: jsstring
  phone :: jsstring
  location :: jsstring
  linkedin :: "jsstring option"
  github :: "jsstring option"
  website :: "jsstring option"

record education =
  degree :: jsstring
  institution :: jsstring
  eduDescription :: "jsstring option"

record work_experience =
  workId :: jsstring
  title :: "jsstring option"
  company :: jsstring
  workLocation :: jsstring
  startDate :: jsstring
  endDate :: jsstring
  current :: bool
  description :: "jsstring option"
  achievements :: "jsstring list option"

record project =
  projectName :: jsstring
  projectDescription :: jsstring
  technologies :: "jsstring list"

datatype category = Technical | Soft | Language | Other

datatype proficiency = Beginner | Intermediate | Advanced | Expert

record skill =
  skillName :: "jsstring option"
  skillCategory :: category
  skillProficiency :: proficiency

datatype skill_entry = SkillObject skill | SkillString jsstring | SkillNull

record certification =
  certName :: jsstring
  issuer :: jsstring

record resume_data =
  personalInfo :: "personal_info option"
  summary :: "jsstring option"
  educationList :: "education list option"
  workExperience :: "work_experience list option"
  projects :: "project list option"
  skills :: "skill_entry list option"
  certifications :: "certification list option"
  template :: "jsstring option"
  aiEnhancement :: "bool option"

section \<open>Enhancement engine: skills\<close>

definition objectToString :: jsstring where
  "objectToString = js ''[object Object]''"

text \<open>
  \<open>s?.name || s\<close> followed by the conversion to a string that \<open>?.toString()\<close> and
  \<open>join\<close> perform: a non-empty name, else the entry itself, which is a string, an
  object (printed as \<open>[object Object]\<close>) or null (\<open>None\<close>: the optional chain stops).
\<close>

fun nameOrSelf :: "skill_entry \<Rightarrow> jsstring option" where
  "nameOrSelf SkillNull = None"
| "nameOrSelf (SkillString s) = Some s"
| "nameOrSelf (SkillObject sk) =
     (case skillName sk of
        None \<Rightarrow> Some objectToString
      | Some n \<Rightarrow> if n \<noteq> [] then Some n else Some objectToString)"

text \<open>\<open>const n = (s?.name || s)?.toString().trim().toLowerCase()\<close>\<close>

definition skillKey :: "(jsstring \<Rightarrow> jsstring) \<Rightarrow> skill_entry \<Rightarrow> jsstring option" where
  "skillKey lcx s = map_option (\<lambda>l. toLowerCase lcx (trim l)) (nameOrSelf s)"

text \<open>
  The \<open>filter\<close> callback with its \<open>seen\<close> set:
  \<open>if (!n || seen.has(n)) return false; seen.add(n); return true\<close>.
\<close>

fun dedupeFrom :: "(jsstring \<Rightarrow> jsstring) \<Rightarrow> jsstring set \<Rightarrow> skill_entry list \<Rightarrow> skill_entry list" where
  "dedupeFrom lcx seen [] = []"
| "dedupeFrom lcx seen (s # ss) =
     (case skillKey lcx s of
        None \<Rightarrow> dedupeFrom lcx seen ss
      | Some n \<Rightarrow>
          if n = [] \<or> n \<in> seen then dedupeFrom lcx seen ss
          else s # dedupeFrom lcx (insert n seen) ss)"

definition dedupeSkills :: "(jsstring \<Rightarrow> jsstring) \<Rightarrow> skill_entry list \<Rightarrow> skill_entry list" where
  "dedupeSkills lcx ss = dedupeFrom lcx {} ss"

text \<open>The entry of key \<open>k\<close> that a list shows first, if any.\<close>

definition firstWithKey :: "(jsstring \<Rightarrow> jsstring) \<Rightarrow> jsstring \<Rightarrow> skill_entry list \<Rightarrow> skill_entry option" where
  "firstWithKey lcx k ss = find (\<lambda>s. skillKey lcx s = Some k) ss"

definition namedSkill :: "jsstring \<Rightarrow> skill_entry" where
  "namedSkill n = SkillObject \<lparr>skillName = Some n, skillCategory = Technical, skillProficiency = Intermediate\<rparr>"

section \<open>Enhancement engine: the whole transform\<close>

text \<open>
  \<open>enhanceResume\<close> works on \<open>clone = JSON.parse(JSON.stringify(data))\<close> and assigns
  three of its fields in turn. Each assignment is a step on the value of the clone.
\<close>

definition dedupeStep :: "(jsstring \<Rightarrow> jsstring) \<Rightarrow> resume_data \<Rightarrow> resume_data" where
  "dedupeStep lcx clone =
     (case skills clone of
        Some ss \<Rightarrow> clone\<lparr>skills := Some (dedupeSkills lcx ss)\<rparr>
      | None \<Rightarrow> clone)"

text \<open>\<open>{...w, description: normalizeBullets(w?.description || "")}\<close>\<close>

definition bulletize :: "(nat \<Rightarrow> jsstring) \<Rightarrow> work_experience \<Rightarrow> work_experience" where
  "bulletize ucx w =
     w\<lparr>description := Some (normalizeBullets ucx (case description w of Some d \<Rightarrow> d | None \<Rightarrow> []))\<rparr>"

definition bulletizeStep :: "(nat \<Rightarrow> jsstring) \<Rightarrow> resume_data \<Rightarrow> resume_data" where
  "bulletizeStep ucx clone =
     (case workExperience clone of
        Some ws \<Rightarrow> clone\<lparr>workExperience := Some (map (bulletize ucx) ws)\<rparr>
      | None \<Rightarrow> clone)"

text \<open>
  \<open>(clone.skills || []).map((s) => s?.name || s).filter(Boolean).slice(0, 6)\<close>, each
  element as \<open>join\<close> prints it.
\<close>

definition topSkills :: "resume_data \<Rightarrow> jsstring list" where
  "topSkills clone =
     take 6 (filter (\<lambda>l. l \<noteq> [])
       (List.map_filter nameOrSelf (case skills clone of Some ss \<Rightarrow> ss | None \<Rightarrow> [])))"

text \<open>\<open>(clone.workExperience?.[0]?.title || "Engineer").toString()\<close>\<close>

definition roleGuess :: "resume_data \<Rightarrow> jsstring" where
  "roleGuess clone =
     (case workExperience clone of
        Some (w # _) \<Rightarrow>
          (case title w of
             Some t \<Rightarrow> if t \<noteq> [] then t else js ''Engineer''
           | None \<Rightarrow> js ''Engineer'')
      | _ \<Rightarrow> js ''Engineer'')"

definition impactPhrases :: "jsstring list" where
  "impactPhrases = map js
     [''deliver measurable outcomes'', ''ship reliable features'', ''optimize performance'',
      ''automate workflows'', ''improve user experience'', ''scale systems'']"

definition impact :: "resume_data \<Rightarrow> jsstring" where
  "impact clone =
     impactPhrases ! ((length (roleGuess clone) + length (topSkills clone)) mod length impactPhrases)"

definition synthesized :: "resume_data \<Rightarrow> jsstring" where
  "synthesized clone =
     js ''Results-driven '' @ roleGuess clone @ js '' with strengths in ''
       @ joinWith (js '', '') (topSkills clone) @ js ''. Proven ability to '' @ impact clone @ js ''.''"

text \<open>\<open>String(clone.summary || synthesized).replace(/\s+/g, " ").trim().slice(0, 350)\<close>\<close>

definition summaryStep :: "resume_data \<Rightarrow> resume_data" where
  "summaryStep clone =
     clone\<lparr>summary := Some (take 350 (trim (compactWs
       (case summary clone of
          Some s \<Rightarrow> if s \<noteq> [] then s else synthesized clone
        | None \<Rightarrow> synthesized clone))))\<rparr>"

definition enhanceResume :: "(nat \<Rightarrow> jsstring) \<Rightarrow> (jsstring \<Rightarrow> jsstring) \<Rightarrow> resume_data \<Rightarrow> resume_data" where
  "enhanceResume ucx lcx data = summaryStep (bulletizeStep ucx (dedupeStep lcx data))"

subsection \<open>The summary as the specification words it\<close>

text \<open>
  The specification's sentence, built from a role title and a list of skill names; the
  impact phrase is the entry at (length of the role title + number of names) modulo the
  size of the phrase list.
\<close>

definition specSentence :: "jsstring \<Rightarrow> jsstring list \<Rightarrow> jsstring" where
  "specSentence role names =
     js ''Results-driven '' @ role @ js '' with strengths in '' @ joinWith (js '', '') names
       @ js ''. Proven ability to ''
       @ impactPhrases ! ((length role + length names) mod length impactPhrases) @ js ''.''"

definition specNormalize :: "jsstring \<Rightarrow> jsstring" where
  "specNormalize s = take 350 (trim (compactWs s))"

text \<open>The title of the first work-experience entry, \<open>Engineer\<close> when there is none.\<close>

definition specRole :: "resume_data \<Rightarrow> jsstring" where
  "specRole d =
     (case workExperience d of
        Some (w # _) \<Rightarrow> (case title w of Some t \<Rightarrow> if t = [] then js ''Engineer'' else t
                                       | None \<Rightarrow> js ''Engineer'')
      | _ \<Rightarrow> js ''Engineer'')"

text \<open>The name an entry of the skills list carries.\<close>

fun entryName :: "skill_entry \<Rightarrow> jsstring" where
  "entryName (SkillObject sk) = (case skillName sk of Some n \<Rightarrow> n | None \<Rightarrow> [])"
| "entryName (SkillString s) = s"
| "entryName SkillNull = []"

fun hasName :: "skill_entry \<Rightarrow> bool" where
  "hasName (SkillObject sk) = (case skillName sk of Some n \<Rightarrow> n \<noteq> [] | None \<Rightarrow> False)"
| "hasName (SkillString s) = True"
| "hasName SkillNull = True"

definition specTopNames :: "(jsstring \<Rightarrow> jsstring) \<Rightarrow> resume_data \<Rightarrow> jsstring list" where
  "specTopNames lcx d =
     take 6 (map entryName (dedupeSkills lcx (case skills d of Some ss \<Rightarrow> ss | None \<Rightarrow> [])))"

text \<open>Title case as the specification names it: each word starts with a capital.\<close>

fun titleCaseFrom :: "bool \<Rightarrow> jsstring \<Rightarrow> jsstring" where
  "titleCaseFrom start [] = []"
| "titleCaseFrom start (c # cs) =
     (if isWhiteSpace c then c # titleCaseFrom True cs
      else (if start then asciiUpper c else asciiLower c) # titleCaseFrom False cs)"

definition titleCase :: "jsstring \<Rightarrow> jsstring" where
  "titleCase s = titleCaseFrom True s"

definition specSummaryTitleCased :: "(jsstring \<Rightarrow> jsstring) \<Rightarrow> resume_data \<Rightarrow> jsstring" where
  "specSummaryTitleCased lcx d =
     specNormalize (specSentence (specRole d) (map titleCase (specTopNames lcx d)))"

definition emptyDraft :: resume_data where
  "emptyDraft = \<lparr>personalInfo = None, summary = None, educationList = None,
     workExperience = None, projects = None, skills = None, certifications = None,
     template = None, aiEnhancement = None\<rparr>"

definition reactDraft :: resume_data where
  "reactDraft = emptyDraft\<lparr>skills := Some [namedSkill (js ''react'')]\<rparr>"

section \<open>The web client: generation and upload\<close>

datatype format = Html | Pdf

text \<open>An exception object, with its message.\<close>

datatype js_error = Error jsstring | TypeError jsstring | SyntaxError jsstring

fun message :: "js_error \<Rightarrow> jsstring" where
  "message (Error m) = m"
| "message (TypeError m) = m"
| "message (SyntaxError m) = m"

text \<open>
  A response of the backend: \<open>bodyBytes\<close> is what \<open>arrayBuffer()\<close> and \<open>blob()\<close> give,
  \<open>bodyText\<close> what \<open>text()\<close> gives (the runtime's decoding of the same body).
\<close>

record http_response =
  status :: nat
  statusText :: jsstring
  bodyText :: jsstring
  bodyBytes :: "8 word list"

definition ok :: "http_response \<Rightarrow> bool" where
  "ok res \<longleftrightarrow> 200 \<le> status res \<and> status res \<le> 299"

record generation_request =
  reqTemplate :: jsstring
  reqData :: resume_data
  reqFormat :: format

text \<open>
  The rendering service answers a request with a response, or the call fails (\<open>fetch\<close>
  rejects). The world records every request that was sent.
\<close>

type_synonym rendering_service = "generation_request \<Rightarrow> js_error + http_response"

record world =
  sent :: "generation_request list"

definition fetchGenerate ::
  "rendering_service \<Rightarrow> world \<Rightarrow> generation_request \<Rightarrow> (js_error + http_response) \<times> world" where
  "fetchGenerate srv w req = (srv req, w\<lparr>sent := sent w @ [req]\<rparr>)"

text \<open>The decimal digits of \<open>${res.status}\<close>.\<close>

fun showNat :: "nat \<Rightarrow> jsstring" where
  "showNat n = (if n < 10 then [48 + n] else showNat (n div 10) @ [48 + n mod 10])"

datatype generated = Blob "8 word list" | Text jsstring

text \<open>
  \<open>generateResume\<close> of the API client. \<open>res.text().catch(() => "")\<close> makes a body that
  cannot be read the empty text; \<open>text || res.statusText\<close>.
\<close>

definition generateResume ::
  "rendering_service \<Rightarrow> world \<Rightarrow> generation_request \<Rightarrow> (js_error + generated) \<times> world" where
  "generateResume srv w data =
     (case fetchGenerate srv w data of
        (Inl e, w') \<Rightarrow> (Inl e, w')
      | (Inr res, w') \<Rightarrow>
          if \<not> ok res then
            (Inl (Error (js ''Generation failed ('' @ showNat (status res) @ js ''): ''
                          @ (if bodyText res \<noteq> [] then bodyText res else statusText res))), w')
          else (Inr (if reqFormat data = Pdf then Blob (bodyBytes res) else Text (bodyText res)), w'))"

record toast =
  toastTitle :: jsstring
  toastDescription :: jsstring
  destructive :: bool

text \<open>The state of the page: the draft and last-used template of the draft store, and the page's own state.\<close>

record page_state =
  resumeData :: resume_data
  lastUsedTemplate :: "jsstring option"
  templates :: "jsstring list"
  uploading :: bool
  generating :: "format option"
  htmlPreview :: jsstring
  downloads :: "8 word list list"
  toasts :: "toast list"

text \<open>\<open>a || b\<close> for an optional string \<open>a\<close> and a string \<open>b\<close>.\<close>

definition orElse :: "jsstring option \<Rightarrow> jsstring \<Rightarrow> jsstring" where
  "orElse a b = (case a of Some t \<Rightarrow> if t \<noteq> [] then t else b | None \<Rightarrow> b)"

text \<open>\<open>templates[0]\<close>: undefined on the empty catalog.\<close>

definition firstTemplate :: "jsstring list \<Rightarrow> jsstring option" where
  "firstTemplate ts = (case ts of [] \<Rightarrow> None | t # _ \<Rightarrow> Some t)"

text \<open>\<open>resumeData.template || lastUsedTemplate || templates[0] || "modern.tex"\<close>\<close>

definition payloadTemplate :: "page_state \<Rightarrow> jsstring" where
  "payloadTemplate st =
     orElse (template (resumeData st))
       (orElse (lastUsedTemplate st)
         (orElse (firstTemplate (templates st)) (js ''modern.tex'')))"

definition payload :: "(nat \<Rightarrow> jsstring) \<Rightarrow> (jsstring \<Rightarrow> jsstring) \<Rightarrow> page_state \<Rightarrow> format \<Rightarrow> generation_request" where
  "payload ucx lcx st fmt =
     \<lparr>reqTemplate = payloadTemplate st,
      reqData = (if aiEnhancement (resumeData st) = Some True
                 then enhanceResume ucx lcx (resumeData st) else resumeData st),
      reqFormat = fmt\<rparr>"

text \<open>
  \<open>handleGenerate\<close>: the result is a blob exactly when the format is \<open>pdf\<close>, so the
  branch on the format is the branch on the kind of result.
\<close>

definition handleGenerate ::
  "(nat \<Rightarrow> jsstring) \<Rightarrow> (jsstring \<Rightarrow> jsstring) \<Rightarrow> rendering_service \<Rightarrow> format
     \<Rightarrow> page_state \<times> world \<Rightarrow> page_state \<times> world" where
  "handleGenerate ucx lcx srv fmt sw =
     (let st = (fst sw)\<lparr>generating := Some fmt\<rparr>;
          (r, w') = generateResume srv (snd sw) (payload ucx lcx st fmt);
          st' = (case r of
                   Inr (Blob b) \<Rightarrow>
                     st\<lparr>downloads := downloads st @ [b],
                        toasts := toasts st @ [\<lparr>toastTitle = js ''PDF generated'',
                          toastDescription = js ''Your resume has been downloaded.'',
                          destructive = False\<rparr>]\<rparr>
                 | Inr (Text t) \<Rightarrow>
                     st\<lparr>htmlPreview := t,
                        toasts := toasts st @ [\<lparr>toastTitle = js ''Preview ready'',
                          toastDescription = js ''Scroll to see the preview.'',
                          destructive = False\<rparr>]\<rparr>
                 | Inl e \<Rightarrow>
                     st\<lparr>toasts := toasts st @ [\<lparr>toastTitle = js ''Generation failed'',
                          toastDescription = message e, destructive = True\<rparr>]\<rparr>)
      in (st'\<lparr>generating := None\<rparr>, w'))"

subsection \<open>Printing the preview\<close>

text \<open>The lines of the printable document before and after the generated content.\<close>

definition printHead :: "jsstring list" where
  "printHead =
     [js ''<!doctype html>'',
      js ''<html>'',
      js ''  <head>'',
      js ''    <meta charset='' @ [34] @ js ''utf-8'' @ [34] @ js '' />'',
      js ''    <meta name='' @ [34] @ js ''viewport'' @ [34] @ js '' content='' @ [34] @ js ''width=device-width, initial-scale=1'' @ [34] @ js '' />'',
      js ''    <title>Resume Preview</title>'',
      js ''    <link rel='' @ [34] @ js ''stylesheet'' @ [34] @ js '' href='' @ [34] @ js ''https://cdn.jsdelivr.net/npm/katex@0.16.25/dist/katex.min.css'' @ [34] @ js '' crossorigin='' @ [34] @ js ''anonymous'' @ [34] @ js '' />'',
      js ''    <style>'',
      js ''      @page { size: A4; margin: 16mm; }'',
      js ''      html, body { height: 100%; }'',
      js ''      body { -webkit-print-color-adjust: exact; color-adjust: exact; }'',
      js ''    </style>'',
      js ''  </head>'',
      js ''  <body>'']"

definition printTail :: "jsstring list" where
  "printTail =
     [js ''    <script>'',
      js ''      window.onload = function(){'',
      js ''        setTimeout(function(){'',
      js ''          window.print();'',
      js ''          setTimeout(function(){ window.close(); }, 300);'',
      js ''        }, 300);'',
      js ''      };'',
      js ''    </script>'',
      js ''  </body>'',
      js ''</html>'']"

definition printable :: "jsstring \<Rightarrow> jsstring" where
  "printable content = joinWith [10] (printHead @ [js ''    '' @ content] @ printTail)"

text \<open>The payload of \<open>handlePrintHtml\<close>: the draft as it is, format \<open>html\<close>.\<close>

definition printPayload :: "page_state \<Rightarrow> generation_request" where
  "printPayload st =
     \<lparr>reqTemplate = payloadTemplate st, reqData = resumeData st, reqFormat = Html\<rparr>"

text \<open>\<open>String(res)\<close>\<close>

fun resultString :: "generated \<Rightarrow> jsstring" where
  "resultString (Text t) = t"
| "resultString (Blob b) = js ''[object Blob]''"

text \<open>
  \<open>handlePrintHtml\<close>: a generation call is made only when no preview is cached.
  \<open>popup\<close> tells whether \<open>window.open\<close> gives a window; the last component is the
  document written into it.
\<close>

definition handlePrintHtml ::
  "rendering_service \<Rightarrow> bool \<Rightarrow> page_state \<times> world \<Rightarrow> (page_state \<times> world) \<times> jsstring option" where
  "handlePrintHtml srv popup sw =
     (let st = fst sw; w = snd sw
      in if htmlPreview st \<noteq> []
         then ((st, w), if popup then Some (printable (htmlPreview st)) else None)
         else (let st1 = st\<lparr>generating := Some Html\<rparr>
               in case generateResume srv w (printPayload st1) of
                    (Inr res, w') \<Rightarrow>
                      ((st1\<lparr>htmlPreview := resultString res, generating := None\<rparr>, w'),
                       if popup then Some (printable (resultString res)) else None)
                  | (Inl e, w') \<Rightarrow>
                      ((st1\<lparr>toasts := toasts st1 @ [\<lparr>toastTitle = js ''Print failed'',
                            toastDescription = message e, destructive = True\<rparr>],
                          generating := None\<rparr>, w'), None)))"

text \<open>
  The specification's resolution: the first non-empty value, in this order, of the
  draft's template, the last-used template and the first entry of the catalog, else the
  fallback identifier.
\<close>

fun firstNonEmpty :: "jsstring option list \<Rightarrow> jsstring option" where
  "firstNonEmpty [] = None"
| "firstNonEmpty (None # rest) = firstNonEmpty rest"
| "firstNonEmpty (Some t # rest) = (if t = [] then firstNonEmpty rest else Some t)"

definition specResolveTemplate :: "jsstring option \<Rightarrow> jsstring option \<Rightarrow> jsstring list \<Rightarrow> jsstring" where
  "specResolveTemplate draftTemplate lastUsed catalog =
     (case firstNonEmpty
             [draftTemplate, lastUsed, (case catalog of [] \<Rightarrow> None | c # _ \<Rightarrow> Some c)] of
        None \<Rightarrow> js ''modern.tex''
      | Some t \<Rightarrow> t)"

subsection \<open>Upload and merge\<close>

text \<open>
  The parsed document of an upload is a partial object that came through JSON: each of
  its top-level fields is absent, or present with a value, which may be null
  (\<open>Present None\<close>).
\<close>

datatype 'a parsed_field = Absent | Present "'a option"

record parsed_resume =
  parsedPersonalInfo :: "personal_info parsed_field"
  parsedSummary :: "jsstring parsed_field"
  parsedEducation :: "education list parsed_field"
  parsedWorkExperience :: "work_experience list parsed_field"
  parsedProjects :: "project list parsed_field"
  parsedSkills :: "skill_entry list parsed_field"
  parsedCertifications :: "certification list parsed_field"
  parsedTemplate :: "jsstring parsed_field"
  parsedAiEnhancement :: "bool parsed_field"

text \<open>
  \<open>{...resumeData, ...res.parsed}\<close>, field by field: a field that \<open>parsed\<close> has
  overwrites the draft's, also when its value is null; a field that it does not have
  leaves the draft's.
\<close>

fun spread :: "'a option \<Rightarrow> 'a parsed_field \<Rightarrow> 'a option" where
  "spread old Absent = old"
| "spread old (Present v) = v"

definition mergeParsed :: "resume_data \<Rightarrow> parsed_resume \<Rightarrow> resume_data" where
  "mergeParsed draft parsed =
     \<lparr>personalInfo = spread (personalInfo draft) (parsedPersonalInfo parsed),
      summary = spread (summary draft) (parsedSummary parsed),
      educationList = spread (educationList draft) (parsedEducation parsed),
      workExperience = spread (workExperience draft) (parsedWorkExperience parsed),
      projects = spread (projects draft) (parsedProjects parsed),
      skills = spread (skills draft) (parsedSkills parsed),
      certifications = spread (certifications draft) (parsedCertifications parsed),
      template = spread (template draft) (parsedTemplate parsed),
      aiEnhancement = spread (aiEnhancement draft) (parsedAiEnhancement parsed)\<rparr>"

text \<open>
  \<open>handleFileChange\<close>, given the file chosen (if any) and what \<open>uploadResume(file)\<close>
  comes back with: an exception, or the response object with its \<open>parsed\<close> field.
\<close>

definition handleFileChange ::
  "'f option \<Rightarrow> ('f \<Rightarrow> js_error + parsed_resume option) \<Rightarrow> page_state \<Rightarrow> page_state" where
  "handleFileChange file uploadResume st =
     (case file of
        None \<Rightarrow> st
      | Some f \<Rightarrow>
          (let st1 = st\<lparr>uploading := True\<rparr>;
               st2 = (case uploadResume f of
                        Inr (Some parsed) \<Rightarrow>
                          st1\<lparr>resumeData := mergeParsed (resumeData st1) parsed,
                              toasts := toasts st1 @ [\<lparr>toastTitle = js ''Resume uploaded'',
                                toastDescription = js ''We extracted what we could. Please review and edit.'',
                                destructive = False\<rparr>]\<rparr>
                      | Inr None \<Rightarrow>
                          st1\<lparr>toasts := toasts st1 @ [\<lparr>toastTitle = js ''No data found'',
                                toastDescription = js ''Could not parse the file. Please fill manually.'',
                                destructive = True\<rparr>]\<rparr>
                      | Inl e \<Rightarrow>
                          st1\<lparr>toasts := toasts st1 @ [\<lparr>toastTitle = js ''Upload failed'',
                                toastDescription = message e, destructive = True\<rparr>]\<rparr>)
           in st2\<lparr>uploading := False\<rparr>))"

text \<open>
  Shallow merge of one field, as the specification words it: a field present in the
  parsed result overwrites with its value, an absent one leaves the draft's value.
\<close>

definition fieldMerged :: "'a option \<Rightarrow> 'a parsed_field \<Rightarrow> 'a option \<Rightarrow> bool" where
  "fieldMerged old new res \<longleftrightarrow> (case new of Absent \<Rightarrow> res = old | Present v \<Rightarrow> res = v)"

definition oldDraft :: resume_data where
  "oldDraft = emptyDraft\<lparr>summary := Some (js ''old''), template := Some (js ''classic.tex''),
     personalInfo := Some \<lparr>fullName = js ''Ada'', email = js ''ada@example.org'', phone = [],
       location = [], linkedin = None, github = None, website = None\<rparr>\<rparr>"

definition emptyParsed :: parsed_resume where
  "emptyParsed = \<lparr>parsedPersonalInfo = Absent, parsedSummary = Absent, parsedEducation = Absent,
     parsedWorkExperience = Absent, parsedProjects = Absent, parsedSkills = Absent,
     parsedCertifications = Absent, parsedTemplate = Absent, parsedAiEnhancement = Absent\<rparr>"

text \<open>\<open>{summary: "new", skills: [{name: "React", ...}], template: null}\<close>\<close>

definition newParsed :: parsed_resume where
  "newParsed = emptyParsed\<lparr>parsedSummary := Present (Some (js ''new'')),
     parsedSkills := Present (Some [namedSkill (js ''React'')]), parsedTemplate := Present None\<rparr>"

definition parsedUpload :: "unit \<Rightarrow> js_error + parsed_resume option" where
  "parsedUpload u = Inr (Some newParsed)"

definition blankPage :: page_state where
  "blankPage = \<lparr>resumeData = emptyDraft, lastUsedTemplate = None, templates = [],
     uploading = False, generating = None, htmlPreview = [], downloads = [], toasts = []\<rparr>"

text \<open>A rendering service that answers every request, and pages set up for the four levels of the resolution.\<close>

definition htmlService :: rendering_service where
  "htmlService req = Inr \<lparr>status = 200, statusText = js ''OK'', bodyText = js ''<div>OK</div>'',
     bodyBytes = []\<rparr>"

definition pageWith :: "jsstring option \<Rightarrow> jsstring option \<Rightarrow> jsstring list \<Rightarrow> page_state" where
  "pageWith t l c =
     blankPage\<lparr>resumeData := emptyDraft\<lparr>template := t\<rparr>, lastUsedTemplate := l, templates := c\<rparr>"

definition noRequests :: world where
  "noRequests = \<lparr>sent = []\<rparr>"

section \<open>The protocol adapter\<close>

text \<open>
  The arguments of a tool call are JSON values. Of an object or array only its truthiness
  matters to the adapter, which forwards it; it is carried as its JSON text. Numbers are
  left out of the model.
\<close>

datatype jsval = JUndefined | JNull | JBool bool | JString jsstring | JObject jsstring

fun truthy :: "jsval \<Rightarrow> bool" where
  "truthy JUndefined = False"
| "truthy JNull = False"
| "truthy (JBool b) = b"
| "truthy (JString s) = (s \<noteq> [])"
| "truthy (JObject j) = True"

text \<open>The string a template literal \<open>${v}\<close> shows for a value.\<close>

fun display :: "jsval \<Rightarrow> jsstring" where
  "display JUndefined = js ''undefined''"
| "display JNull = js ''null''"
| "display (JBool b) = (if b then js ''true'' else js ''false'')"
| "display (JString s) = s"
| "display (JObject j) = objectToString"

record tool_args =
  file_path :: jsval
  template_arg :: jsval
  resume_data_arg :: jsval
  format_arg :: jsval

record tool_request =
  bodyTemplate :: jsval
  bodyData :: jsval
  bodyFormat :: jsstring

text \<open>
  What the adapter reaches: the file system, the three endpoints of the backend, each
  answering or failing (\<open>fetch\<close> rejects), and \<open>res.json()\<close> followed by
  \<open>JSON.stringify(data, null, 2)\<close>, which fails on a body that is not JSON.
\<close>

record adapter_env =
  fileExists :: "jsstring \<Rightarrow> bool"
  fetchTemplates :: "js_error + http_response"
  fetchUpload :: "jsstring \<Rightarrow> js_error + http_response"
  fetchRender :: "tool_request \<Rightarrow> js_error + http_response"
  prettyJson :: "jsstring \<Rightarrow> js_error + jsstring"

text \<open>\<open>fs.existsSync\<close> answers false for a value that is not a path.\<close>

definition existsSync :: "adapter_env \<Rightarrow> jsval \<Rightarrow> bool" where
  "existsSync env v = (case v of JString p \<Rightarrow> fileExists env p | _ \<Rightarrow> False)"

record tool_result =
  resultText :: jsstring
  isError :: bool

definition undefinedAccess :: "string \<Rightarrow> js_error" where
  "undefinedAccess field =
     TypeError (js ''Cannot read properties of undefined (reading '' @ [39] @ js field @ [39] @ js '')'')"

subsection \<open>Base64\<close>

text \<open>
  \<open>buf.toString('base64')\<close> and the decoding of its output are functions of the
  runtime: the standard base64 encoding, three bytes to four characters of the alphabet
  \<open>A-Z a-z 0-9 + /\<close>, padded with \<open>=\<close>. The decoder accepts exactly the padded
  form.
\<close>

definition b64Char :: "nat \<Rightarrow> nat" where
  "b64Char n =
     (if n < 26 then 65 + n
      else if n < 52 then 97 + (n - 26)
      else if n < 62 then 48 + (n - 52)
      else if n = 62 then 43 else 47)"

definition b64Value :: "nat \<Rightarrow> nat option" where
  "b64Value c =
     (if 65 \<le> c \<and> c \<le> 90 then Some (c - 65)
      else if 97 \<le> c \<and> c \<le> 122 then Some (c - 97 + 26)
      else if 48 \<le> c \<and> c \<le> 57 then Some (c - 48 + 52)
      else if c = 43 then Some 62
      else if c = 47 then Some 63
      else None)"

fun base64Encode :: "nat list \<Rightarrow> jsstring" where
  "base64Encode [] = []"
| "base64Encode [a] = [b64Char (a div 4), b64Char ((a mod 4) * 16), 61, 61]"
| "base64Encode [a, b] =
     [b64Char (a div 4), b64Char ((a mod 4) * 16 + b div 16), b64Char ((b mod 16) * 4), 61]"
| "base64Encode (a # b # c # r) =
     [b64Char (a div 4), b64Char ((a mod 4) * 16 + b div 16),
      b64Char ((b mod 16) * 4 + c div 64), b64Char (c mod 64)] @ base64Encode r"

definition toBase64 :: "8 word list \<Rightarrow> jsstring" where
  "toBase64 bs = base64Encode (map unat bs)"

fun base64Decode :: "jsstring \<Rightarrow> nat list option" where
  "base64Decode [] = Some []"
| "base64Decode (w # x # y # z # r) =
     (case (b64Value w, b64Value x) of
        (Some m, Some n) \<Rightarrow>
          if y = 61 \<and> z = 61 \<and> r = [] then Some [m * 4 + n div 16]
          else (case b64Value y of
             None \<Rightarrow> None
           | Some p \<Rightarrow>
               if z = 61 \<and> r = [] then Some [m * 4 + n div 16, (n mod 16) * 16 + p div 4]
               else (case (b64Value z, base64Decode r) of
                  (Some q, Some rest) \<Rightarrow>
                    Some ([m * 4 + n div 16, (n mod 16) * 16 + p div 4, (p mod 4) * 64 + q] @ rest)
                | _ \<Rightarrow> None))
      | _ \<Rightarrow> None)"
| "base64Decode _ = None"

definition fromBase64 :: "jsstring \<Rightarrow> 8 word list option" where
  "fromBase64 s = map_option (map of_nat) (base64Decode s)"

subsection \<open>The tool-call handler\<close>

text \<open>The body of the \<open>try\<close> block: the text of the result, or the exception thrown.\<close>

definition listTemplatesTool :: "adapter_env \<Rightarrow> js_error + jsstring" where
  "listTemplatesTool env =
     (case fetchTemplates env of
        Inl e \<Rightarrow> Inl e
      | Inr res \<Rightarrow> prettyJson env (bodyText res))"

definition extractResumeDataTool :: "adapter_env \<Rightarrow> tool_args option \<Rightarrow> js_error + jsstring" where
  "extractResumeDataTool env args =
     (case args of
        None \<Rightarrow> Inl (undefinedAccess ''file_path'')
      | Some a \<Rightarrow>
          if \<not> truthy (file_path a) then Inl (Error (js ''file_path is required''))
          else if \<not> existsSync env (file_path a)
            then Inl (Error (js ''file not found: '' @ display (file_path a)))
          else (case fetchUpload env (display (file_path a)) of
                  Inl e \<Rightarrow> Inl e
                | Inr res \<Rightarrow> prettyJson env (bodyText res)))"

definition defaultTemplate :: jsval where
  "defaultTemplate = JString (js ''billryan_basic.tex'')"

definition generateResumeHtmlTool :: "adapter_env \<Rightarrow> tool_args option \<Rightarrow> js_error + jsstring" where
  "generateResumeHtmlTool env args =
     (case args of
        None \<Rightarrow> Inl (undefinedAccess ''template'')
      | Some a \<Rightarrow>
          (let tmpl = (if truthy (template_arg a) then template_arg a else defaultTemplate);
               resume = resume_data_arg a
           in if \<not> truthy resume then Inl (Error (js ''resume_data is required''))
              else (case fetchRender env
                            \<lparr>bodyTemplate = tmpl, bodyData = resume, bodyFormat = js ''html''\<rparr> of
                      Inl e \<Rightarrow> Inl e
                    | Inr res \<Rightarrow> Inr (bodyText res))))"

text \<open>
  \<open>(args.format || 'html').toLowerCase()\<close>: a truthy value that is not a string has no
  such method.
\<close>

definition formatOf :: "(jsstring \<Rightarrow> jsstring) \<Rightarrow> jsval \<Rightarrow> js_error + jsstring" where
  "formatOf lcx v =
     (if \<not> truthy v then Inr (toLowerCase lcx (js ''html''))
      else (case v of
              JString s \<Rightarrow> Inr (toLowerCase lcx s)
            | _ \<Rightarrow> Inl (TypeError (js ''(intermediate value).toLowerCase is not a function''))))"

definition pdfMarker :: jsstring where
  "pdfMarker = js ''PDF_BASE64:''"

definition generateResumeTool ::
  "adapter_env \<Rightarrow> (jsstring \<Rightarrow> jsstring) \<Rightarrow> tool_args option \<Rightarrow> js_error + jsstring" where
  "generateResumeTool env lcx args =
     (case args of
        None \<Rightarrow> Inl (undefinedAccess ''template'')
      | Some a \<Rightarrow>
          (let tmpl = (if truthy (template_arg a) then template_arg a else defaultTemplate);
               resume = resume_data_arg a
           in case formatOf lcx (format_arg a) of
                Inl e \<Rightarrow> Inl e
              | Inr fmt \<Rightarrow>
                  if \<not> truthy resume then Inl (Error (js ''resume_data is required''))
                  else (case fetchRender env
                                \<lparr>bodyTemplate = tmpl, bodyData = resume, bodyFormat = fmt\<rparr> of
                          Inl e \<Rightarrow> Inl e
                        | Inr res \<Rightarrow>
                            if fmt = js ''pdf'' then Inr (pdfMarker @ toBase64 (bodyBytes res))
                            else Inr (bodyText res))))"

definition toolBody ::
  "adapter_env \<Rightarrow> (jsstring \<Rightarrow> jsstring) \<Rightarrow> jsstring \<Rightarrow> tool_args option \<Rightarrow> js_error + jsstring" where
  "toolBody env lcx tool args =
     (if tool = js ''list_templates'' then listTemplatesTool env
      else if tool = js ''extract_resume_data'' then extractResumeDataTool env args
      else if tool = js ''generate_resume_html'' then generateResumeHtmlTool env args
      else if tool = js ''generate_resume'' then generateResumeTool env lcx args
      else Inl (Error (js ''Unknown tool: '' @ tool)))"

text \<open>The handler: \<open>try { ... } catch (error) { return { ..., isError: true } }\<close>.\<close>

definition callTool ::
  "adapter_env \<Rightarrow> (jsstring \<Rightarrow> jsstring) \<Rightarrow> jsstring \<Rightarrow> tool_args option \<Rightarrow> tool_result" where
  "callTool env lcx tool args =
     (case toolBody env lcx tool args of
        Inr t \<Rightarrow> \<lparr>resultText = t, isError = False\<rparr>
      | Inl e \<Rightarrow> \<lparr>resultText = js ''Error: '' @ message e, isError = True\<rparr>)"

definition knownTools :: "jsstring list" where
  "knownTools = map js [''list_templates'', ''extract_resume_data'', ''generate_resume'',
     ''generate_resume_html'']"

text \<open>Concrete collaborators and arguments on which the adapter is run.\<close>

definition pdfResponse :: http_response where
  "pdfResponse = \<lparr>status = 200, statusText = js ''OK'', bodyText = js ''%PDF'',
     bodyBytes = [0x25, 0x50, 0x44, 0x46]\<rparr>"

definition failedResponse :: http_response where
  "failedResponse = \<lparr>status = 500, statusText = js ''Internal Server Error'',
     bodyText = js ''oops'', bodyBytes = [0x6F, 0x6F, 0x70, 0x73]\<rparr>"

definition fetchFailed :: js_error where
  "fetchFailed = TypeError (js ''fetch failed'')"

definition servingEnv :: "http_response \<Rightarrow> adapter_env" where
  "servingEnv res = \<lparr>fileExists = (\<lambda>p. False), fetchTemplates = Inr res,
     fetchUpload = (\<lambda>p. Inr res), fetchRender = (\<lambda>r. Inr res), prettyJson = (\<lambda>t. Inr t)\<rparr>"

definition downEnv :: adapter_env where
  "downEnv = \<lparr>fileExists = (\<lambda>p. False), fetchTemplates = Inl fetchFailed,
     fetchUpload = (\<lambda>p. Inl fetchFailed), fetchRender = (\<lambda>r. Inl fetchFailed),
     prettyJson = (\<lambda>t. Inr t)\<rparr>"

definition noArgs :: tool_args where
  "noArgs = \<lparr>file_path = JUndefined, template_arg = JUndefined, resume_data_arg = JUndefined,
     format_arg = JUndefined\<rparr>"

definition htmlArgs :: tool_args where
  "htmlArgs = noArgs\<lparr>resume_data_arg := JObject (js ''{}'')\<rparr>"

definition pdfArgs :: tool_args where
  "pdfArgs = noArgs\<lparr>resume_data_arg := JObject (js ''{}''), format_arg := JString (js ''PDF'')\<rparr>"

definition noFileArgs :: tool_args where
  "noFileArgs = noArgs\<lparr>file_path := JString (js ''/no/such/file.pdf'')\<rparr>"

text \<open>The failures of the adapter's own checks, as the specification lists them.\<close>

definition missingInput :: "jsstring \<Rightarrow> tool_args option \<Rightarrow> bool" where
  "missingInput tool args \<longleftrightarrow>
     (tool = js ''extract_resume_data''
        \<and> (case args of None \<Rightarrow> True | Some a \<Rightarrow> \<not> truthy (file_path a)))
     \<or> ((tool = js ''generate_resume'' \<or> tool = js ''generate_resume_html'')
        \<and> (case args of None \<Rightarrow> True | Some a \<Rightarrow> \<not> truthy (resume_data_arg a)))"

definition missingFile :: "adapter_env \<Rightarrow> jsstring \<Rightarrow> tool_args option \<Rightarrow> bool" where
  "missingFile env tool args \<longleftrightarrow>
     tool = js ''extract_resume_data''
       \<and> (case args of None \<Rightarrow> False | Some a \<Rightarrow> \<not> existsSync env (file_path a))"

section \<open>Enhancement on the heap\<close>

text \<open>
  Whether \<open>enhanceResume\<close> changes the object it is given depends on which object its
  assignments reach, so objects live in a store here: an address is an index into the
  list of allocated objects. The three assignments of the function are field
  assignments on the object \<open>clone\<close> (\<open>clone.skills = ...\<close>,
  \<open>clone.workExperience = ...\<close>, \<open>clone.summary = ...\<close>); the arrays they store are
  fresh (\<open>filter\<close>, \<open>map\<close>, \<open>slice\<close> and the object spread build new values), and no
  nested array or object is ever assigned into, so nested data are values.
\<close>

type_synonym heap = "resume_data list"

definition readObj :: "heap \<Rightarrow> nat \<Rightarrow> resume_data option" where
  "readObj h a = (if a < length h then Some (h ! a) else None)"

text \<open>\<open>JSON.parse(JSON.stringify(data))\<close> builds a new object with the same content.\<close>

definition alloc :: "heap \<Rightarrow> resume_data \<Rightarrow> heap \<times> nat" where
  "alloc h v = (h @ [v], length h)"

text \<open>An assignment to fields of the object at \<open>a\<close>.\<close>

definition assign :: "heap \<Rightarrow> nat \<Rightarrow> (resume_data \<Rightarrow> resume_data) \<Rightarrow> heap" where
  "assign h a f = (if a < length h then h[a := f (h ! a)] else h)"

definition enhanceResumeHeap ::
  "(nat \<Rightarrow> jsstring) \<Rightarrow> (jsstring \<Rightarrow> jsstring) \<Rightarrow> heap \<Rightarrow> nat \<Rightarrow> (heap \<times> nat) option" where
  "enhanceResumeHeap ucx lcx h data =
     (case readObj h data of
        None \<Rightarrow> None
      | Some d \<Rightarrow>
          (let (h1, clone) = alloc h d;
               h2 = assign h1 clone (dedupeStep lcx);
               h3 = assign h2 clone (bulletizeStep ucx);
               h4 = assign h3 clone summaryStep
           in Some (h4, clone)))"

text \<open>
  Case tables that leave every code unit beyond ASCII as it is; they are used where the
  model is run on a concrete (ASCII) input.
\<close>

definition plainUpper :: "nat \<Rightarrow> jsstring" where
  "plainUpper c = [c]"

definition plainLower :: "jsstring \<Rightarrow> jsstring" where
  "plainLower s = s"

text \<open>A skills list with blank names and two spellings of one name.\<close>

definition mixedSkills :: "skill_entry list" where
  "mixedSkills = [namedSkill [32], namedSkill (js ''React ''), namedSkill (js ''react''),
     namedSkill [32, 32]]"

text \<open>A description of two lines, the second of which starts with a verb.\<close>

definition twoBullets :: jsstring where
  "twoBullets = js ''x'' @ [10] @ js ''led a team. ''"

definition isLetter :: "nat \<Rightarrow> bool" where
  "isLetter c \<longleftrightarrow> (65 \<le> c \<and> c \<le> 90) \<or> (97 \<le> c \<and> c \<le> 122)"

definition isSeparatorStart :: "nat \<Rightarrow> bool" where
  "isSeparatorStart c \<longleftrightarrow> c \<in> set [10, 13, 8218, 8226, 45, 8211, 8212]"

section \<open>Properties of bullet normalization\<close>

lemma compactWs_ws: "c \<in> set (compactWs t) \<Longrightarrow> isWhiteSpace c \<Longrightarrow> c = 32"
  by (induction t rule: compactWs.induct) (auto split: if_splits)

lemma linesOf_noLF: "10 \<notin> set b \<Longrightarrow> linesOf b = [b]"
  by (induction b) auto

lemma linesOf_app: "10 \<notin> set b \<Longrightarrow> linesOf (b @ 10 # s) = b # linesOf s"
  by (induction b) auto

lemma linesOf_join:
  "bs \<noteq> [] \<Longrightarrow> \<forall>b\<in>set bs. 10 \<notin> set b \<Longrightarrow> linesOf (joinWith [10] bs) = bs"
  by (induction "[10::nat]" bs rule: joinWith.induct) (auto simp: linesOf_noLF linesOf_app)

lemma truncationMarker_length: "length truncationMarker = 3"
  by (simp add: truncationMarker_def)

lemma truncateBullet_length: "length (truncateBullet t) \<le> 220 + length truncationMarker"
  by (simp add: truncateBullet_def)

lemma formatBullet_length: "length (formatBullet ucx i x) \<le> 220 + length truncationMarker"
  by (simp add: formatBullet_def Let_def truncateBullet_length)

lemma compactWs_noLF: "10 \<notin> set (compactWs t)"
  using compactWs_ws [of 10 t] by (auto simp: isWhiteSpace_def)

lemma truncateBullet_noLF: "10 \<notin> set t \<Longrightarrow> 10 \<notin> set (truncateBullet t)"
  by (auto simp: truncateBullet_def truncationMarker_def dest: in_set_takeD)

lemma formatBullet_noLF: "10 \<notin> set (formatBullet ucx i x)"
  by (simp add: formatBullet_def Let_def truncateBullet_noLF compactWs_noLF)

lemma bullets_props:
  "b \<in> set (bullets ucx str) \<Longrightarrow> 10 \<notin> set b \<and> length b \<le> 220 + length truncationMarker"
  by (auto simp: bullets_def formatBullet_noLF formatBullet_length)

lemma normalizeBullets_lines:
  "linesOf (normalizeBullets ucx str) =
     (if bullets ucx str = [] then [[]] else take 6 (bullets ucx str))"
proof (cases "bullets ucx str = []")
  case True
  then show ?thesis by (simp add: normalizeBullets_def)
next
  case False
  then have ne: "take 6 (bullets ucx str) \<noteq> []" by simp
  have "\<forall>b\<in>set (take 6 (bullets ucx str)). 10 \<notin> set b"
    using bullets_props by (blast dest: in_set_takeD)
  with ne False show ?thesis
    unfolding normalizeBullets_def by (simp add: linesOf_join)
qed

lemma normalizeBullets_count: "length (linesOf (normalizeBullets ucx str)) \<le> 6"
  by (simp add: normalizeBullets_lines)

lemma normalizeBullets_width:
  "l \<in> set (linesOf (normalizeBullets ucx str)) \<Longrightarrow> length l \<le> 220 + length truncationMarker"
  using bullets_props [of l ucx str]
  by (auto simp: normalizeBullets_lines split: if_splits dest: in_set_takeD)

lemma normalizeBullets_empty: "normalizeBullets ucx [] = []"
  by (simp add: normalizeBullets_def bullets_def bulletLines_def trim_def)

subsection \<open>A line that starts with a verb keeps it\<close>

lemma strongVerbs_letters:
  "v \<in> set strongVerbs \<Longrightarrow> v \<noteq> [] \<and> list_all isLetter v"
  by (auto simp: strongVerbs_def js_def isLetter_def)

lemma asciiUpper_letter: "isLetter l \<Longrightarrow> asciiUpper c = asciiUpper l \<Longrightarrow> isLetter c"
  by (auto simp: asciiUpper_def isLetter_def split: if_splits)

lemma asciiUpper_idem: "asciiUpper (asciiUpper c) = asciiUpper c"
  unfolding asciiUpper_def by (cases "97 \<le> c \<and> c \<le> 122") auto

lemma same_letters:
  "list_all isLetter v \<Longrightarrow> map asciiUpper p = map asciiUpper v \<Longrightarrow> list_all isLetter p"
proof (induction v arbitrary: p)
  case Nil
  then show ?case by simp
next
  case (Cons l v)
  then show ?case by (cases p) (auto intro: asciiUpper_letter)
qed

lemma matchesVerb_capitalizeFirst:
  assumes "matchesVerb v x" "v \<noteq> []" "list_all isLetter v"
  shows "matchesVerb v (capitalizeFirst ucx x)"
proof -
  obtain l v' where v: "v = l # v'" using assms(2) by (cases v) auto
  obtain c cs where x: "x = c # cs" using assms(1) v by (cases x) (auto simp: matchesVerb_def)
  have "asciiUpper c = asciiUpper l" using assms(1) by (simp add: matchesVerb_def v x)
  moreover have "isLetter l" using assms(3) v by simp
  ultimately have "isLetter c" by (rule asciiUpper_letter [rotated])
  then have "c < 128" by (auto simp: isLetter_def)
  then have cap: "capitalizeFirst ucx x = asciiUpper c # cs"
    by (simp add: capitalizeFirst_def x charToUpperCase_def)
  show ?thesis using assms(1) unfolding cap by (simp add: matchesVerb_def v x asciiUpper_idem)
qed

lemma stripTrailing_append:
  "p \<noteq> [] \<Longrightarrow> \<not> isTrailing (last p) \<Longrightarrow> stripTrailing (p @ r) = p @ stripTrailing r"
  by (cases p rule: rev_cases) (auto simp: stripTrailing_def dropWhile_append)

lemma stripTrailing_hd:
  "stripTrailing (c # r) = [] \<or> (\<exists>r'. stripTrailing (c # r) = c # r')"
proof -
  have "prefix (stripTrailing (c # r)) (c # r)"
    unfolding stripTrailing_def
    by (metis rev_rev_ident suffix_dropWhile suffix_to_prefix)
  then show ?thesis by (cases "stripTrailing (c # r)") auto
qed

lemma letter_not_trailing: "isLetter c \<Longrightarrow> \<not> isTrailing c"
  by (auto simp: isLetter_def isTrailing_def isWhiteSpace_def)

lemma matchesVerb_stripTrailing:
  assumes "matchesVerb v t" "v \<noteq> []" "list_all isLetter v"
  shows "matchesVerb v (stripTrailing t)"
proof -
  define p where "p = take (length v) t"
  define r where "r = drop (length v) t"
  have t: "t = p @ r" by (simp add: p_def r_def)
  have len: "length p = length v" using assms(1) by (simp add: p_def matchesVerb_def)
  have up: "map asciiUpper p = map asciiUpper v" using assms(1) by (simp add: p_def matchesVerb_def)
  have bd: "case r of [] \<Rightarrow> True | c # _ \<Rightarrow> \<not> isWordChar c"
    using assms(1) by (simp add: r_def matchesVerb_def)
  have pne: "p \<noteq> []" using len assms(2) by auto
  have "list_all isLetter p" using same_letters [OF assms(3) up] .
  then have "isLetter (last p)" using pne by (simp add: list_all_iff)
  then have st: "stripTrailing t = p @ stripTrailing r"
    unfolding t using pne by (simp add: stripTrailing_append letter_not_trailing)
  have "case stripTrailing r of [] \<Rightarrow> True | c # _ \<Rightarrow> \<not> isWordChar c"
  proof (cases r)
    case Nil
    then show ?thesis by (simp add: stripTrailing_def)
  next
    case (Cons c r')
    then show ?thesis using bd stripTrailing_hd [of c r'] by (auto split: list.splits)
  qed
  then show ?thesis unfolding st by (simp add: matchesVerb_def len up)
qed

lemma hasVerb_kept: "hasVerb x \<Longrightarrow> hasVerb (stripTrailing (capitalizeFirst ucx x))"
  unfolding hasVerb_def list_ex_iff
  by (blast intro: matchesVerb_stripTrailing matchesVerb_capitalizeFirst dest: strongVerbs_letters)

lemma formatBullet_verb:
  "hasVerb x \<Longrightarrow>
   formatBullet ucx i x = truncateBullet (compactWs (stripTrailing (capitalizeFirst ucx x)))"
  by (simp add: formatBullet_def Let_def hasVerb_kept)

subsection \<open>A description of 221 letters\<close>

lemma splitBullets_plain:
  "\<forall>c\<in>set s. \<not> isSeparatorStart c \<Longrightarrow> splitBullets cur s = [cur @ s]"
  by (induction s arbitrary: cur) (auto simp: isSeparatorStart_def bulletGlyph_def)

lemma trim_plain:
  "s \<noteq> [] \<Longrightarrow> \<not> isWhiteSpace (hd s) \<Longrightarrow> \<not> isWhiteSpace (last s) \<Longrightarrow> trim s = s"
proof -
  assume a: "s \<noteq> []" "\<not> isWhiteSpace (hd s)" "\<not> isWhiteSpace (last s)"
  have "dropWhile isWhiteSpace s = s" using a by (cases s) auto
  moreover have "dropWhile isWhiteSpace (rev s) = rev s" using a by (cases s rule: rev_cases) auto
  ultimately show ?thesis by (simp add: trim_def)
qed

lemma stripTrailing_plain: "t \<noteq> [] \<Longrightarrow> \<not> isTrailing (last t) \<Longrightarrow> stripTrailing t = t"
  by (cases t rule: rev_cases) (auto simp: stripTrailing_def)

lemma compactWs_plain: "\<forall>c\<in>set t. \<not> isWhiteSpace c \<Longrightarrow> compactWs t = t"
  by (induction t) auto

lemma compactWs_append_plain:
  "\<forall>c\<in>set a. \<not> isWhiteSpace c \<Longrightarrow> compactWs (a @ r) = a @ compactWs r"
  by (induction a) auto

lemma hasVerb_Aa: "\<not> hasVerb (65 # 97 # r)"
  by (simp add: hasVerb_def matchesVerb_def strongVerbs_def js_def asciiUpper_def)

lemma long_line:
  "normalizeBullets plainUpper (replicate 221 97)
     = truncateBullet (js ''Led '' @ 65 # 97 # replicate 219 97)"
proof -
  let ?s = "replicate 221 (97::nat)"
  let ?r = "replicate 219 (97::nat)"
  have n: "(221::nat) = Suc (Suc 219)" by simp
  have s: "?s = 97 # 97 # ?r"
    by (simp only: n replicate.simps)
  have "splitBullets [] ?s = [?s]"
    by (simp add: splitBullets_plain isSeparatorStart_def)
  moreover have "trim ?s = ?s"
    by (rule trim_plain) (simp_all add: isWhiteSpace_def)
  ultimately have lines: "bulletLines ?s = [?s]"
    by (simp add: bulletLines_def)
  have cap: "capitalizeFirst plainUpper ?s = 65 # 97 # ?r"
    unfolding s by (simp add: capitalizeFirst_def charToUpperCase_def asciiUpper_def)
  have strip: "stripTrailing (65 # 97 # ?r) = 65 # 97 # ?r"
    by (rule stripTrailing_plain) (simp_all add: isTrailing_def isWhiteSpace_def)
  have pre: "strongVerbs ! (0 mod length strongVerbs) @ [32] @ 65 # 97 # ?r
               = js ''Led'' @ 32 # 65 # 97 # ?r"
    by (simp add: strongVerbs_def js_def)
  have "compactWs (65 # 97 # ?r) = 65 # 97 # ?r"
    by (rule compactWs_plain) (simp add: isWhiteSpace_def)
  then have "compactWs (32 # 65 # 97 # ?r) = 32 # 65 # 97 # ?r"
    by (simp add: isWhiteSpace_def)
  then have cw: "compactWs (js ''Led'' @ 32 # 65 # 97 # ?r) = js ''Led '' @ 65 # 97 # ?r"
    by (subst compactWs_append_plain) (simp_all add: js_def isWhiteSpace_def)
  have "formatBullet plainUpper 0 ?s
          = truncateBullet (compactWs (strongVerbs ! (0 mod length strongVerbs) @ [32] @ 65 # 97 # ?r))"
    unfolding formatBullet_def Let_def cap strip using hasVerb_Aa by simp
  then have "formatBullet plainUpper 0 ?s = truncateBullet (js ''Led '' @ 65 # 97 # ?r)"
    by (simp only: pre cw)
  then show ?thesis
    by (simp add: normalizeBullets_def bullets_def lines)
qed

lemma short_line:
  "normalizeBullets plainUpper (js ''led a team. '') = js ''Led a team''"
  by (simp add: normalizeBullets_def bullets_def bulletLines_def trim_def js_def isWhiteSpace_def
      formatBullet_def Let_def capitalizeFirst_def charToUpperCase_def asciiUpper_def
      stripTrailing_def isTrailing_def hasVerb_def matchesVerb_def strongVerbs_def isWordChar_def
      truncateBullet_def bulletGlyph_def enumerate_eq_zip)

lemma short_line_verb: "hasVerb (js ''led a team. '')"
  by (simp add: js_def hasVerb_def matchesVerb_def strongVerbs_def isWordChar_def asciiUpper_def)

text \<open>
  C1, as the specification states it: no emitted line exceeds 220 characters, the
  truncation marker included. It fails: a description of 221 letters \<open>a\<close> is emitted as
  one line of 223 code units, the verb \<open>Led\<close>, a space and the capitalized text cut at
  220 code units, followed by the three code units of the marker.
\<close>

theorem normalizeBullets_long_line_counterexample:
  "linesOf (normalizeBullets plainUpper (replicate 221 97))
     = [normalizeBullets plainUpper (replicate 221 97)]
   \<and> length (normalizeBullets plainUpper (replicate 221 97)) = 223"
proof -
  have "10 \<notin> set (normalizeBullets plainUpper (replicate 221 97))"
    unfolding long_line by (rule truncateBullet_noLF) (simp add: js_def)
  moreover have "length (normalizeBullets plainUpper (replicate 221 97)) = 223"
    unfolding long_line by (simp add: truncateBullet_def truncationMarker_def js_def)
  ultimately show ?thesis by (simp add: linesOf_noLF)
qed

lemma bullets_length: "length (bullets ucx str) = length (bulletLines str)"
  by (simp add: bullets_def)

lemma bullets_nth:
  "i < length (bulletLines str) \<Longrightarrow> bullets ucx str ! i = formatBullet ucx i (bulletLines str ! i)"
  by (simp add: bullets_def nth_enumerate_eq)

lemma emitted_nth:
  assumes "i < 6" "i < length (bulletLines str)"
  shows "linesOf (normalizeBullets ucx str) ! i = formatBullet ucx i (bulletLines str ! i)"
proof -
  have "bullets ucx str \<noteq> []" using assms(2) bullets_length [of ucx str] by auto
  then have "linesOf (normalizeBullets ucx str) ! i = take 6 (bullets ucx str) ! i"
    by (simp add: normalizeBullets_lines)
  also have "\<dots> = bullets ucx str ! i" using assms(1) by simp
  finally show ?thesis using assms(2) by (simp add: bullets_nth)
qed

lemma emitted_count:
  "bulletLines str \<noteq> [] \<Longrightarrow>
     length (linesOf (normalizeBullets ucx str)) = min 6 (length (bulletLines str))"
  using bullets_length [of ucx str] by (auto simp: normalizeBullets_lines)

lemma emitted_verb_line:
  assumes "i < 6" "i < length (bulletLines str)" "hasVerb (bulletLines str ! i)"
  shows "linesOf (normalizeBullets ucx str) ! i
           = truncateBullet (compactWs (stripTrailing (capitalizeFirst ucx (bulletLines str ! i))))"
  using emitted_nth [OF assms(1,2)] formatBullet_verb [OF assms(3)] by simp

lemma twoBullets_lines: "bulletLines twoBullets = [js ''x'', js ''led a team.'']"
  by (simp add: twoBullets_def bulletLines_def trim_def js_def isWhiteSpace_def bulletGlyph_def)

lemma twoBullets_out:
  "linesOf (normalizeBullets plainUpper twoBullets) = [js ''Led X'', js ''Led a team'']"
  unfolding normalizeBullets_lines
  by (simp add: bullets_def twoBullets_lines enumerate_eq_zip js_def isWhiteSpace_def
      formatBullet_def Let_def capitalizeFirst_def charToUpperCase_def asciiUpper_def
      stripTrailing_def isTrailing_def hasVerb_def matchesVerb_def strongVerbs_def isWordChar_def
      truncateBullet_def)

text \<open>
  C1, amended: for every description and every case table of the runtime, bullet
  normalization emits at most 6 lines, namely one for each of the first six non-empty
  trimmed pieces of the description; no emitted line exceeds 220 characters plus the
  length of the truncation marker that is appended to a line cut at 220 (the marker
  itself is not counted in the cut); every emitted line whose piece passes the verb test
  of the source (it starts with one of the fixed verbs, in any letter case, followed by
  the end of the piece or a non-word character) is that piece capitalized, stripped of
  trailing punctuation, white-space compacted and truncated, with no verb put in front;
  and the empty description yields the empty text.
\<close>

theorem normalizeBullets_bounds:
  "length (linesOf (normalizeBullets ucx str)) \<le> 6
   \<and> (bulletLines str \<noteq> [] \<longrightarrow>
        length (linesOf (normalizeBullets ucx str)) = min 6 (length (bulletLines str)))
   \<and> (\<forall>l\<in>set (linesOf (normalizeBullets ucx str)). length l \<le> 220 + length truncationMarker)
   \<and> (\<forall>i. i < 6 \<and> i < length (bulletLines str) \<and> hasVerb (bulletLines str ! i) \<longrightarrow>
        linesOf (normalizeBullets ucx str) ! i
          = truncateBullet (compactWs (stripTrailing (capitalizeFirst ucx (bulletLines str ! i)))))
   \<and> normalizeBullets ucx [] = []"
  using normalizeBullets_count [of ucx str] normalizeBullets_width [of _ ucx str]
    emitted_count [of str ucx] emitted_verb_line [of _ str ucx] normalizeBullets_empty [of ucx]
  by blast

theorem normalizeBullets_bounds_witness:
  "bulletLines twoBullets \<noteq> []
   \<and> length (linesOf (normalizeBullets plainUpper twoBullets)) = min 6 (length (bulletLines twoBullets))
   \<and> js ''Led a team'' \<in> set (linesOf (normalizeBullets plainUpper twoBullets))
   \<and> length (js ''Led a team'') \<le> 220 + length truncationMarker
   \<and> (1::nat) < 6 \<and> 1 < length (bulletLines twoBullets) \<and> hasVerb (bulletLines twoBullets ! 1)
   \<and> linesOf (normalizeBullets plainUpper twoBullets) ! 1
       = truncateBullet (compactWs (stripTrailing (capitalizeFirst plainUpper (bulletLines twoBullets ! 1))))
   \<and> linesOf (normalizeBullets plainUpper twoBullets) ! 1 = js ''Led a team''"
proof -
  have ne: "bulletLines twoBullets \<noteq> []" and len: "1 < length (bulletLines twoBullets)"
    by (simp_all add: twoBullets_lines)
  have v: "hasVerb (bulletLines twoBullets ! 1)"
    by (simp add: twoBullets_lines js_def hasVerb_def matchesVerb_def strongVerbs_def
          isWordChar_def asciiUpper_def)
  have m: "js ''Led a team'' \<in> set (linesOf (normalizeBullets plainUpper twoBullets))"
    and o: "linesOf (normalizeBullets plainUpper twoBullets) ! 1 = js ''Led a team''"
    by (simp_all add: twoBullets_out)
  have six: "(1::nat) < 6" by simp
  show ?thesis
    using normalizeBullets_bounds [of plainUpper twoBullets] ne len v m o six by blast
qed

section \<open>Properties of the skill dedup\<close>

lemma dedupeFrom_keys:
  "s \<in> set (dedupeFrom lcx seen ss) \<Longrightarrow>
     s \<in> set ss \<and> (\<exists>n. skillKey lcx s = Some n \<and> n \<noteq> [] \<and> n \<notin> seen)"
  by (induction ss arbitrary: seen) (auto split: option.splits if_splits)

lemma dedupeFrom_distinct: "distinct (map (skillKey lcx) (dedupeFrom lcx seen ss))"
proof (induction ss arbitrary: seen)
  case Nil
  then show ?case by simp
next
  case (Cons s ss)
  show ?case
  proof (cases "skillKey lcx s")
    case None
    then show ?thesis using Cons.IH by simp
  next
    case (Some n)
    have "Some n \<notin> skillKey lcx ` set (dedupeFrom lcx (insert n seen) ss)"
      using dedupeFrom_keys [of _ lcx "insert n seen" ss] by force
    then show ?thesis using Some Cons.IH by simp
  qed
qed

lemma dedupeFrom_idem: "dedupeFrom lcx seen (dedupeFrom lcx seen ss) = dedupeFrom lcx seen ss"
  by (induction ss arbitrary: seen) (auto split: option.splits)

lemma dedupeFrom_subseq: "subseq (dedupeFrom lcx seen ss) ss"
  by (induction ss arbitrary: seen) (auto split: option.splits)

lemma dedupeFrom_first:
  "k \<noteq> [] \<Longrightarrow> k \<notin> seen \<Longrightarrow>
     find (\<lambda>s. skillKey lcx s = Some k) (dedupeFrom lcx seen ss)
       = find (\<lambda>s. skillKey lcx s = Some k) ss"
  by (induction ss arbitrary: seen) (auto split: option.splits)

lemma dedupeFrom_blank:
  "find (\<lambda>s. skillKey lcx s = Some []) (dedupeFrom lcx seen ss) = None"
  unfolding find_None_iff by (fastforce dest: dedupeFrom_keys)

lemma skillKey_named:
  "skillName sk = Some n \<Longrightarrow> n \<noteq> [] \<Longrightarrow>
     skillKey lcx (SkillObject sk) = Some (toLowerCase lcx (trim n))"
  by (simp add: skillKey_def)

lemmas key_eval = skillKey_def namedSkill_def toLowerCase_def trim_def isWhiteSpace_def
  asciiLower_def js_def objectToString_def

lemma react_keys:
  "skillKey lcx (namedSkill (js ''React '')) = Some (js ''react'')"
  "skillKey lcx (namedSkill (js ''react'')) = Some (js ''react'')"
  "skillKey lcx (namedSkill (js ''REACT'')) = Some (js ''react'')"
  by (simp_all add: key_eval)

lemma react_dedupe:
  "dedupeSkills lcx [namedSkill (js ''React ''), namedSkill (js ''react''), namedSkill (js ''REACT'')]
     = [namedSkill (js ''React '')]"
  by (simp add: dedupeSkills_def react_keys) (simp add: js_def)

lemma blank_keys:
  "skillKey lcx (namedSkill [32]) = Some []"
  "skillKey lcx (namedSkill [32, 32]) = Some []"
  by (simp_all add: key_eval)

lemma blank_dedupe: "dedupeSkills lcx [namedSkill [32], namedSkill [32, 32]] = []"
  by (simp add: dedupeSkills_def blank_keys)

lemma unnamed_key:
  "skillKey lcx (namedSkill []) = Some (js ''[object object]'')"
  by (simp add: key_eval)

lemma unnamed_dedupe: "dedupeSkills lcx [namedSkill []] = [namedSkill []]"
  by (simp add: dedupeSkills_def unnamed_key) (simp add: js_def)

text \<open>
  C3, as the specification states it: entries whose names differ only by surrounding
  white space or letter case collapse into the single first-occurring entry. It fails
  for names made of white space only: the two entries below have the same key, and
  neither is kept.
\<close>

theorem dedupeSkills_blank_counterexample:
  "skillKey plainLower (namedSkill [32]) = skillKey plainLower (namedSkill [32, 32])
   \<and> dedupeSkills plainLower [namedSkill [32], namedSkill [32, 32]] = []"
  by (simp add: blank_keys blank_dedupe)

lemma mixedSkills_dedupe: "dedupeSkills lcx mixedSkills = [namedSkill (js ''React '')]"
  by (simp add: dedupeSkills_def mixedSkills_def react_keys blank_keys) (simp add: js_def)

text \<open>
  C3, amended: for every skills list the dedup step is idempotent; its result is a
  subsequence of the list; no two entries of the result have the same key; for every
  non-empty key, the entry of that key in the result is the first entry of that key in
  the list (so all entries of one non-empty key collapse into the first of them); every
  entry of the result has a non-empty key, that is, the entries whose key is empty or
  missing do not collapse into one entry but are all removed; and the key of an entry
  with a non-empty name is the trimmed, lower-cased name.
\<close>

theorem dedupeSkills_first_occurrences:
  "dedupeSkills lcx (dedupeSkills lcx ss) = dedupeSkills lcx ss
   \<and> subseq (dedupeSkills lcx ss) ss
   \<and> distinct (map (skillKey lcx) (dedupeSkills lcx ss))
   \<and> (k \<noteq> [] \<longrightarrow> firstWithKey lcx k (dedupeSkills lcx ss) = firstWithKey lcx k ss)
   \<and> (\<forall>s\<in>set (dedupeSkills lcx ss). \<exists>n. skillKey lcx s = Some n \<and> n \<noteq> [])
   \<and> firstWithKey lcx [] (dedupeSkills lcx ss) = None
   \<and> (skillName sk = Some n \<and> n \<noteq> [] \<longrightarrow>
        skillKey lcx (SkillObject sk) = Some (toLowerCase lcx (trim n)))"
proof -
  have "\<forall>s\<in>set (dedupeFrom lcx {} ss). \<exists>n. skillKey lcx s = Some n \<and> n \<noteq> []"
    by (blast dest: dedupeFrom_keys)
  then show ?thesis
    unfolding dedupeSkills_def firstWithKey_def
    using dedupeFrom_idem [of lcx "{}" ss] dedupeFrom_subseq [of lcx "{}" ss]
      dedupeFrom_distinct [of lcx "{}" ss] dedupeFrom_first [of k "{}" lcx ss]
      dedupeFrom_blank [of lcx "{}" ss] skillKey_named [of sk n lcx]
    by simp
qed

theorem dedupeSkills_first_occurrences_witness:
  "js ''react'' \<noteq> []
   \<and> firstWithKey plainLower (js ''react'') (dedupeSkills plainLower mixedSkills)
       = Some (namedSkill (js ''React ''))
   \<and> firstWithKey plainLower (js ''react'') mixedSkills = Some (namedSkill (js ''React ''))
   \<and> namedSkill (js ''React '') \<in> set (dedupeSkills plainLower mixedSkills)
   \<and> skillKey plainLower (namedSkill (js ''React '')) = Some (js ''react'')
   \<and> namedSkill [32] \<in> set mixedSkills
   \<and> namedSkill [32] \<notin> set (dedupeSkills plainLower mixedSkills)
   \<and> skillName \<lparr>skillName = Some (js ''React ''), skillCategory = Technical,
         skillProficiency = Intermediate\<rparr> = Some (js ''React '')
   \<and> js ''React '' \<noteq> []
   \<and> skillKey plainLower (namedSkill (js ''React '')) = Some (toLowerCase plainLower (trim (js ''React '')))"
proof -
  have k: "js ''react'' \<noteq> []" and n: "js ''React '' \<noteq> []"
    by (simp_all add: js_def)
  have f: "firstWithKey plainLower (js ''react'') mixedSkills = Some (namedSkill (js ''React ''))"
    by (simp add: firstWithKey_def mixedSkills_def react_keys blank_keys) (simp add: js_def)
  have m: "namedSkill (js ''React '') \<in> set (dedupeSkills plainLower mixedSkills)"
    by (simp add: mixedSkills_dedupe)
  have b: "namedSkill [32] \<in> set mixedSkills"
    by (simp add: mixedSkills_def)
  have "\<not> (\<exists>n. skillKey plainLower (namedSkill [32]) = Some n \<and> n \<noteq> [])"
    by (simp add: blank_keys)
  then have nb: "namedSkill [32] \<notin> set (dedupeSkills plainLower mixedSkills)"
    using dedupeSkills_first_occurrences [of plainLower mixedSkills] by blast
  show ?thesis
    using dedupeSkills_first_occurrences [of plainLower mixedSkills "js ''react''"
        "\<lparr>skillName = Some (js ''React ''), skillCategory = Technical, skillProficiency = Intermediate\<rparr>"
        "js ''React ''"]
      k n f m b nb react_keys(1) [of plainLower]
    by (simp add: namedSkill_def)
qed

text \<open>
  C10: every entry whose name is missing, empty or blank is removed. The code does not
  do so for an object whose name is the empty string: \<open>s?.name || s\<close> falls back to the
  object, whose printed form \<open>[object Object]\<close> gives a non-empty key, so the entry is
  kept.
\<close>

theorem dedupeSkills_unnamed_kept:
  "dedupeSkills plainLower [namedSkill []] = [namedSkill []]"
  by (rule unnamed_dedupe)

text \<open>What the code does remove: every entry whose key is missing or empty.\<close>

lemma dedupeSkills_no_blank_key:
  "s \<in> set (dedupeSkills lcx ss) \<Longrightarrow> \<exists>n. skillKey lcx s = Some n \<and> n \<noteq> []"
  unfolding dedupeSkills_def by (blast dest: dedupeFrom_keys)

section \<open>Properties of the synthesized summary\<close>

lemma dedupeStep_fields:
  "skills (dedupeStep lcx d) = map_option (dedupeSkills lcx) (skills d)"
  "workExperience (dedupeStep lcx d) = workExperience d"
  "summary (dedupeStep lcx d) = summary d"
  by (simp_all add: dedupeStep_def split: option.splits)

lemma bulletizeStep_fields:
  "skills (bulletizeStep ucx d) = skills d"
  "workExperience (bulletizeStep ucx d) = map_option (map (bulletize ucx)) (workExperience d)"
  "summary (bulletizeStep ucx d) = summary d"
  by (simp_all add: bulletizeStep_def split: option.splits)

lemma roleGuess_bulletizeStep: "roleGuess (bulletizeStep ucx d) = roleGuess d"
  by (simp add: roleGuess_def bulletizeStep_fields bulletize_def split: option.splits list.splits)

lemma roleGuess_dedupeStep: "roleGuess (dedupeStep lcx d) = roleGuess d"
  by (simp add: roleGuess_def dedupeStep_fields)

lemma roleGuess_specRole: "roleGuess d = specRole d"
  by (simp add: roleGuess_def specRole_def split: option.splits list.splits)

lemma topSkills_bulletizeStep: "topSkills (bulletizeStep ucx d) = topSkills d"
  by (simp add: topSkills_def bulletizeStep_fields)

lemma toLowerCase_Nil: "toLowerCase lcx [] = []"
  by (simp add: toLowerCase_def)

lemma trim_Nil: "trim [] = []"
  by (simp add: trim_def)

lemma dedupeSkills_label:
  assumes "s \<in> set (dedupeSkills lcx ss)"
  shows "s \<in> set ss \<and> (\<exists>l. nameOrSelf s = Some l \<and> l \<noteq> [])"
proof -
  from assms obtain n where s: "s \<in> set ss" and k: "skillKey lcx s = Some n" and n: "n \<noteq> []"
    unfolding dedupeSkills_def by (blast dest: dedupeFrom_keys)
  from k obtain l where l: "nameOrSelf s = Some l" and nl: "n = toLowerCase lcx (trim l)"
    by (auto simp: skillKey_def)
  from n nl have "l \<noteq> []" using toLowerCase_Nil trim_Nil by auto
  with s l show ?thesis by simp
qed

lemma hasName_label: "hasName s \<Longrightarrow> nameOrSelf s = Some l \<Longrightarrow> l = entryName s"
  by (cases s) (auto split: option.splits if_splits)

lemma labels_names:
  "\<forall>s\<in>set xs. hasName s \<and> (\<exists>l. nameOrSelf s = Some l \<and> l \<noteq> []) \<Longrightarrow>
     filter (\<lambda>l. l \<noteq> []) (List.map_filter nameOrSelf xs) = map entryName xs"
proof (induction xs)
  case Nil
  then show ?case by (simp add: map_filter_simps)
next
  case (Cons s xs)
  then obtain l where l: "nameOrSelf s = Some l" "l \<noteq> []" "hasName s" by auto
  then have "l = entryName s" using hasName_label by blast
  with l Cons show ?case by (simp add: map_filter_simps)
qed

lemma topSkills_dedupeStep:
  assumes "list_all hasName (case skills d of Some ss \<Rightarrow> ss | None \<Rightarrow> [])"
  shows "topSkills (dedupeStep lcx d) = specTopNames lcx d"
proof (cases "skills d")
  case None
  then show ?thesis
    by (simp add: topSkills_def specTopNames_def dedupeStep_fields dedupeSkills_def map_filter_simps)
next
  case (Some ss)
  have "\<forall>s\<in>set (dedupeSkills lcx ss). hasName s \<and> (\<exists>l. nameOrSelf s = Some l \<and> l \<noteq> [])"
    using assms Some dedupeSkills_label [of _ lcx ss] by (auto simp: list_all_iff)
  then show ?thesis
    using Some by (simp add: topSkills_def specTopNames_def dedupeStep_fields labels_names)
qed

lemma synthesized_spec:
  assumes "list_all hasName (case skills d of Some ss \<Rightarrow> ss | None \<Rightarrow> [])"
  shows "synthesized (bulletizeStep ucx (dedupeStep lcx d))
           = specSentence (specRole d) (specTopNames lcx d)"
proof -
  have r: "roleGuess (bulletizeStep ucx (dedupeStep lcx d)) = specRole d"
    using roleGuess_bulletizeStep [of ucx "dedupeStep lcx d"] roleGuess_dedupeStep [of lcx d]
      roleGuess_specRole [of d] by simp
  have t: "topSkills (bulletizeStep ucx (dedupeStep lcx d)) = specTopNames lcx d"
    by (simp only: topSkills_bulletizeStep topSkills_dedupeStep [OF assms])
  show ?thesis
    by (simp only: synthesized_def impact_def specSentence_def r t)
qed

lemma summary_synthesized:
  assumes "summary d = None \<or> summary d = Some []"
    and "list_all hasName (case skills d of Some ss \<Rightarrow> ss | None \<Rightarrow> [])"
  shows "summary (enhanceResume ucx lcx d)
           = Some (specNormalize (specSentence (specRole d) (specTopNames lcx d)))"
proof -
  let ?c = "bulletizeStep ucx (dedupeStep lcx d)"
  have "summary ?c = summary d" by (simp add: bulletizeStep_fields dedupeStep_fields)
  with assms(1) have "summary (summaryStep ?c) = Some (take 350 (trim (compactWs (synthesized ?c))))"
    by (auto simp: summaryStep_def)
  then show ?thesis
    by (simp add: enhanceResume_def specNormalize_def synthesized_spec [OF assms(2)])
qed

lemma enhanceResume_summary_length:
  "\<exists>t. summary (enhanceResume ucx lcx d) = Some t \<and> length t \<le> 350"
  by (simp add: enhanceResume_def summaryStep_def)

lemma reactDraft_fields:
  "summary reactDraft = None"
  "skills reactDraft = Some [namedSkill (js ''react'')]"
  "workExperience reactDraft = None"
  by (simp_all add: reactDraft_def emptyDraft_def)

lemma reactDraft_role: "specRole reactDraft = js ''Engineer''"
  by (simp add: specRole_def reactDraft_fields)

lemma reactDraft_names: "specTopNames lcx reactDraft = [js ''react'']"
  by (simp add: specTopNames_def reactDraft_fields dedupeSkills_def react_keys)
     (simp add: js_def namedSkill_def)

lemma reactDraft_hasName: "list_all hasName (case skills reactDraft of Some ss \<Rightarrow> ss | None \<Rightarrow> [])"
  by (simp add: reactDraft_fields namedSkill_def js_def)

lemma react_sentence:
  "specNormalize (specSentence (js ''Engineer'') [js ''react''])
     = js ''Results-driven Engineer with strengths in react. Proven ability to automate workflows.''"
  by (simp add: specNormalize_def specSentence_def impactPhrases_def js_def trim_def isWhiteSpace_def)

lemma React_sentence:
  "specNormalize (specSentence (js ''Engineer'') [titleCase (js ''react'')])
     = js ''Results-driven Engineer with strengths in React. Proven ability to automate workflows.''"
  by (simp add: specNormalize_def specSentence_def impactPhrases_def js_def trim_def isWhiteSpace_def
       titleCase_def asciiUpper_def asciiLower_def)

text \<open>
  C2, as the specification states it: the skills part of the sentence is the title case
  of the skill names. The code joins the names as they are written; for the single skill
  \<open>react\<close> the enhanced summary reads \<open>react\<close> where the specification's sentence
  reads \<open>React\<close>.
\<close>

theorem summary_titlecase_counterexample:
  "summary (enhanceResume plainUpper plainLower reactDraft)
     = Some (js ''Results-driven Engineer with strengths in react. Proven ability to automate workflows.'')
   \<and> specSummaryTitleCased plainLower reactDraft
     = js ''Results-driven Engineer with strengths in React. Proven ability to automate workflows.''"
  using summary_synthesized [OF _ reactDraft_hasName, of plainUpper plainLower]
  by (simp add: reactDraft_fields(1) reactDraft_role reactDraft_names react_sentence
        specSummaryTitleCased_def React_sentence)

text \<open>
  C2, amended: for every draft whose summary is absent or empty and whose skill objects
  all carry a non-empty name, the enhanced summary is the sentence
  \<open>Results-driven {role} with strengths in {skills}. Proven ability to {impact}.\<close>,
  white-space normalized, trimmed and cut at 350 characters, where the role is the title
  of the first work-experience entry (\<open>Engineer\<close> when there is no entry or its title is
  absent or empty), the skills are the names, as they are written, of the first six
  entries left by the dedup, joined by a comma and a space, and the impact phrase is the
  entry of the fixed list at index (length of the role + number of those names) modulo
  the size of the list.
\<close>

theorem enhanceResume_summary_absent:
  assumes "summary d = None \<or> summary d = Some []"
    and "list_all hasName (case skills d of Some ss \<Rightarrow> ss | None \<Rightarrow> [])"
  shows "summary (enhanceResume ucx lcx d)
           = Some (specNormalize (specSentence (specRole d) (specTopNames lcx d)))"
  using assms by (rule summary_synthesized)

theorem enhanceResume_summary_absent_witness:
  "(summary reactDraft = None \<or> summary reactDraft = Some [])
   \<and> list_all hasName (case skills reactDraft of Some ss \<Rightarrow> ss | None \<Rightarrow> [])
   \<and> summary (enhanceResume plainUpper plainLower reactDraft)
       = Some (specNormalize (specSentence (specRole reactDraft) (specTopNames plainLower reactDraft)))"
proof -
  have a: "summary reactDraft = None \<or> summary reactDraft = Some []"
    by (simp add: reactDraft_fields)
  show ?thesis
    using enhanceResume_summary_absent [OF a reactDraft_hasName, of plainUpper plainLower]
      a reactDraft_hasName
    by simp
qed

section \<open>Properties of the web client\<close>

lemma payloadTemplate_spec:
  "payloadTemplate st
     = specResolveTemplate (template (resumeData st)) (lastUsedTemplate st) (templates st)"
  by (simp add: payloadTemplate_def specResolveTemplate_def orElse_def firstTemplate_def
        split: option.splits list.splits)

lemma generateResume_sent:
  "sent (snd (generateResume srv w req)) = sent w @ [req]"
  by (simp add: generateResume_def fetchGenerate_def split: sum.splits)

lemma handleGenerate_sent:
  "sent (snd (handleGenerate ucx lcx srv fmt (st, w)))
     = sent w @ [payload ucx lcx (st\<lparr>generating := Some fmt\<rparr>) fmt]"
proof -
  obtain r w' where g: "generateResume srv w (payload ucx lcx (st\<lparr>generating := Some fmt\<rparr>) fmt) = (r, w')"
    by (cases "generateResume srv w (payload ucx lcx (st\<lparr>generating := Some fmt\<rparr>) fmt)")
  then have "sent w' = sent w @ [payload ucx lcx (st\<lparr>generating := Some fmt\<rparr>) fmt]"
    using generateResume_sent [of srv w "payload ucx lcx (st\<lparr>generating := Some fmt\<rparr>) fmt"] by simp
  then show ?thesis by (simp add: handleGenerate_def Let_def g)
qed

lemma handleGenerate_template_aux:
  "map reqTemplate (sent (snd (handleGenerate ucx lcx srv fmt (st, w))))
     = map reqTemplate (sent w)
         @ [specResolveTemplate (template (resumeData st)) (lastUsedTemplate st) (templates st)]"
  using payloadTemplate_spec [of "st\<lparr>generating := Some fmt\<rparr>"]
  by (simp add: handleGenerate_sent payload_def)

lemma payloadTemplate_levels:
  "template (resumeData st) = Some t \<Longrightarrow> t \<noteq> [] \<Longrightarrow> payloadTemplate st = t"
  "orElse (template (resumeData st)) [] = [] \<Longrightarrow> lastUsedTemplate st = Some l \<Longrightarrow> l \<noteq> []
     \<Longrightarrow> payloadTemplate st = l"
  "orElse (template (resumeData st)) [] = [] \<Longrightarrow> orElse (lastUsedTemplate st) [] = []
     \<Longrightarrow> templates st = c # cs \<Longrightarrow> c \<noteq> [] \<Longrightarrow> payloadTemplate st = c"
  "orElse (template (resumeData st)) [] = [] \<Longrightarrow> orElse (lastUsedTemplate st) [] = []
     \<Longrightarrow> orElse (firstTemplate (templates st)) [] = [] \<Longrightarrow> payloadTemplate st = js ''modern.tex''"
  by (auto simp: payloadTemplate_def orElse_def firstTemplate_def split: option.splits if_splits list.splits)

lemma spread_fieldMerged: "fieldMerged old new (spread old new)"
  by (cases new) (simp_all add: fieldMerged_def)

lemma handleFileChange_data:
  "uploadResume f = Inr (Some parsed) \<Longrightarrow>
     resumeData (handleFileChange (Some f) uploadResume st) = mergeParsed (resumeData st) parsed"
  by (simp add: handleFileChange_def Let_def)

lemma merge_aux:
  assumes "uploadResume f = Inr (Some parsed)"
  shows "fieldMerged (personalInfo (resumeData st)) (parsedPersonalInfo parsed)
           (personalInfo (resumeData (handleFileChange (Some f) uploadResume st)))
       \<and> fieldMerged (summary (resumeData st)) (parsedSummary parsed)
           (summary (resumeData (handleFileChange (Some f) uploadResume st)))
       \<and> fieldMerged (educationList (resumeData st)) (parsedEducation parsed)
           (educationList (resumeData (handleFileChange (Some f) uploadResume st)))
       \<and> fieldMerged (workExperience (resumeData st)) (parsedWorkExperience parsed)
           (workExperience (resumeData (handleFileChange (Some f) uploadResume st)))
       \<and> fieldMerged (projects (resumeData st)) (parsedProjects parsed)
           (projects (resumeData (handleFileChange (Some f) uploadResume st)))
       \<and> fieldMerged (skills (resumeData st)) (parsedSkills parsed)
           (skills (resumeData (handleFileChange (Some f) uploadResume st)))
       \<and> fieldMerged (certifications (resumeData st)) (parsedCertifications parsed)
           (certifications (resumeData (handleFileChange (Some f) uploadResume st)))
       \<and> fieldMerged (template (resumeData st)) (parsedTemplate parsed)
           (template (resumeData (handleFileChange (Some f) uploadResume st)))
       \<and> fieldMerged (aiEnhancement (resumeData st)) (parsedAiEnhancement parsed)
           (aiEnhancement (resumeData (handleFileChange (Some f) uploadResume st)))"
  using handleFileChange_data [of uploadResume f parsed st, OF assms]
  by (simp add: mergeParsed_def spread_fieldMerged)

lemma merge_example:
  "resumeData (handleFileChange (Some ()) parsedUpload (blankPage\<lparr>resumeData := oldDraft\<rparr>))
     = oldDraft\<lparr>summary := Some (js ''new''), skills := Some [namedSkill (js ''React'')],
         template := None\<rparr>"
  by (simp add: handleFileChange_def Let_def mergeParsed_def oldDraft_def newParsed_def
       emptyParsed_def emptyDraft_def blankPage_def parsedUpload_def)

lemma generateResume_failure:
  "srv req = Inr res \<Longrightarrow> \<not> ok res \<Longrightarrow>
     generateResume srv w req
       = (Inl (Error (js ''Generation failed ('' @ showNat (status res) @ js ''): ''
                       @ (if bodyText res \<noteq> [] then bodyText res else statusText res))),
          w\<lparr>sent := sent w @ [req]\<rparr>)"
  by (simp add: generateResume_def fetchGenerate_def)

lemma showNat_500: "showNat 500 = js ''500''"
  by (simp add: js_def)

lemma handlePrintHtml_sent:
  "sent (snd (fst (handlePrintHtml srv popup (st, w))))
     = sent w @ (if htmlPreview st = [] then [printPayload (st\<lparr>generating := Some Html\<rparr>)] else [])"
proof (cases "htmlPreview st = []")
  case False
  then show ?thesis by (simp add: handlePrintHtml_def Let_def)
next
  case True
  obtain r w' where g: "generateResume srv w (printPayload (st\<lparr>generating := Some Html\<rparr>)) = (r, w')"
    by (cases "generateResume srv w (printPayload (st\<lparr>generating := Some Html\<rparr>))")
  then have "sent w' = sent w @ [printPayload (st\<lparr>generating := Some Html\<rparr>)]"
    using generateResume_sent [of srv w "printPayload (st\<lparr>generating := Some Html\<rparr>)"] by simp
  then show ?thesis
    using True by (cases r) (simp_all add: handlePrintHtml_def Let_def g)
qed

lemma handlePrintHtml_template_aux:
  "map reqTemplate (sent (snd (fst (handlePrintHtml srv popup (st, w)))))
     = map reqTemplate (sent w)
         @ (if htmlPreview st = []
            then [specResolveTemplate (template (resumeData st)) (lastUsedTemplate st) (templates st)]
            else [])"
  using payloadTemplate_spec [of "st\<lparr>generating := Some Html\<rparr>"]
  by (simp add: handlePrintHtml_sent printPayload_def)

lemma resolve_levels:
  "specResolveTemplate (Some (js ''a.tex'')) (Some (js ''b.tex'')) [js ''c.tex''] = js ''a.tex''"
  "specResolveTemplate (Some []) (Some (js ''b.tex'')) [js ''c.tex''] = js ''b.tex''"
  "specResolveTemplate None None [js ''c.tex'', js ''d.tex''] = js ''c.tex''"
  "specResolveTemplate None (Some []) [] = js ''modern.tex''"
  by (simp_all add: specResolveTemplate_def js_def)

lemma pageWith_fields:
  "template (resumeData (pageWith t l c)) = t"
  "lastUsedTemplate (pageWith t l c) = l"
  "templates (pageWith t l c) = c"
  "htmlPreview (pageWith t l c) = []"
  by (simp_all add: pageWith_def blankPage_def emptyDraft_def)

text \<open>
  C4: every generation call of the page (\<open>handleGenerate\<close>, and \<open>handlePrintHtml\<close>
  when no preview is cached) sends exactly one request, and the template of that request
  is the first non-empty value among the draft's template, the last-used template of the
  draft store and the first entry of the loaded catalog, in this order, and the fallback
  identifier \<open>modern.tex\<close> when all three are empty or absent. With a cached preview
  \<open>handlePrintHtml\<close> sends no request.
\<close>

theorem generation_request_template:
  "map reqTemplate (sent (snd (handleGenerate ucx lcx srv fmt (st, w))))
     = map reqTemplate (sent w)
         @ [specResolveTemplate (template (resumeData st)) (lastUsedTemplate st) (templates st)]
   \<and> map reqTemplate (sent (snd (fst (handlePrintHtml srv popup (st, w)))))
     = map reqTemplate (sent w)
         @ (if htmlPreview st = []
            then [specResolveTemplate (template (resumeData st)) (lastUsedTemplate st) (templates st)]
            else [])"
  using handleGenerate_template_aux [of ucx lcx srv fmt st w]
    handlePrintHtml_template_aux [of srv popup st w]
  by simp

theorem generation_request_template_witness:
  "map reqTemplate (sent (snd (handleGenerate plainUpper plainLower htmlService Html
      (pageWith (Some (js ''a.tex'')) (Some (js ''b.tex'')) [js ''c.tex''], noRequests))))
     = [js ''a.tex'']
   \<and> map reqTemplate (sent (snd (handleGenerate plainUpper plainLower htmlService Pdf
      (pageWith (Some []) (Some (js ''b.tex'')) [js ''c.tex''], noRequests))))
     = [js ''b.tex'']
   \<and> map reqTemplate (sent (snd (handleGenerate plainUpper plainLower htmlService Html
      (pageWith None None [js ''c.tex'', js ''d.tex''], noRequests))))
     = [js ''c.tex'']
   \<and> map reqTemplate (sent (snd (handleGenerate plainUpper plainLower htmlService Html
      (pageWith None (Some []) [], noRequests))))
     = [js ''modern.tex'']
   \<and> map reqTemplate (sent (snd (fst (handlePrintHtml htmlService True
      (pageWith None None [js ''c.tex'', js ''d.tex''], noRequests)))))
     = [js ''c.tex'']"
  using generation_request_template [of plainUpper plainLower htmlService Html
      "pageWith (Some (js ''a.tex'')) (Some (js ''b.tex'')) [js ''c.tex'']" noRequests True]
    generation_request_template [of plainUpper plainLower htmlService Pdf
      "pageWith (Some []) (Some (js ''b.tex'')) [js ''c.tex'']" noRequests True]
    generation_request_template [of plainUpper plainLower htmlService Html
      "pageWith None None [js ''c.tex'', js ''d.tex'']" noRequests True]
    generation_request_template [of plainUpper plainLower htmlService Html
      "pageWith None (Some []) []" noRequests True]
  by (simp add: pageWith_fields resolve_levels noRequests_def)

text \<open>
  C8: when the upload returns a parsed document, the draft after \<open>handleFileChange\<close> is
  the shallow merge of the parsed document into the previous draft: every top-level
  field present in the parsed document has the parsed value (null included), every
  absent one keeps the value of the previous draft.
\<close>

theorem handleFileChange_shallow_merge:
  assumes "uploadResume f = Inr (Some parsed)"
  shows "fieldMerged (personalInfo (resumeData st)) (parsedPersonalInfo parsed)
           (personalInfo (resumeData (handleFileChange (Some f) uploadResume st)))
       \<and> fieldMerged (summary (resumeData st)) (parsedSummary parsed)
           (summary (resumeData (handleFileChange (Some f) uploadResume st)))
       \<and> fieldMerged (educationList (resumeData st)) (parsedEducation parsed)
           (educationList (resumeData (handleFileChange (Some f) uploadResume st)))
       \<and> fieldMerged (workExperience (resumeData st)) (parsedWorkExperience parsed)
           (workExperience (resumeData (handleFileChange (Some f) uploadResume st)))
       \<and> fieldMerged (projects (resumeData st)) (parsedProjects parsed)
           (projects (resumeData (handleFileChange (Some f) uploadResume st)))
       \<and> fieldMerged (skills (resumeData st)) (parsedSkills parsed)
           (skills (resumeData (handleFileChange (Some f) uploadResume st)))
       \<and> fieldMerged (certifications (resumeData st)) (parsedCertifications parsed)
           (certifications (resumeData (handleFileChange (Some f) uploadResume st)))
       \<and> fieldMerged (template (resumeData st)) (parsedTemplate parsed)
           (template (resumeData (handleFileChange (Some f) uploadResume st)))
       \<and> fieldMerged (aiEnhancement (resumeData st)) (parsedAiEnhancement parsed)
           (aiEnhancement (resumeData (handleFileChange (Some f) uploadResume st)))"
  using assms by (rule merge_aux)

theorem handleFileChange_shallow_merge_witness:
  "parsedUpload () = Inr (Some newParsed)
   \<and> parsedSummary newParsed = Present (Some (js ''new''))
   \<and> summary (resumeData (handleFileChange (Some ()) parsedUpload
        (blankPage\<lparr>resumeData := oldDraft\<rparr>))) = Some (js ''new'')
   \<and> parsedSkills newParsed = Present (Some [namedSkill (js ''React'')])
   \<and> skills (resumeData (handleFileChange (Some ()) parsedUpload
        (blankPage\<lparr>resumeData := oldDraft\<rparr>))) = Some [namedSkill (js ''React'')]
   \<and> parsedTemplate newParsed = Present None \<and> template oldDraft = Some (js ''classic.tex'')
   \<and> template (resumeData (handleFileChange (Some ()) parsedUpload
        (blankPage\<lparr>resumeData := oldDraft\<rparr>))) = None
   \<and> parsedPersonalInfo newParsed = Absent
   \<and> personalInfo (resumeData (handleFileChange (Some ()) parsedUpload
        (blankPage\<lparr>resumeData := oldDraft\<rparr>))) = personalInfo oldDraft"
proof -
  have u: "parsedUpload () = Inr (Some newParsed)"
    by (simp add: parsedUpload_def)
  have p: "parsedSummary newParsed = Present (Some (js ''new''))"
    "parsedSkills newParsed = Present (Some [namedSkill (js ''React'')])"
    "parsedTemplate newParsed = Present None" "parsedPersonalInfo newParsed = Absent"
    by (simp_all add: newParsed_def emptyParsed_def)
  have d: "resumeData (blankPage\<lparr>resumeData := oldDraft\<rparr>) = oldDraft"
    by simp
  have t: "template oldDraft = Some (js ''classic.tex'')"
    by (simp add: oldDraft_def emptyDraft_def)
  show ?thesis
    using handleFileChange_shallow_merge
        [of parsedUpload "()" newParsed "blankPage\<lparr>resumeData := oldDraft\<rparr>", OF u] u t
    unfolding fieldMerged_def d p by simp
qed

section \<open>Properties of the protocol adapter\<close>

subsection \<open>Base64 round trip\<close>

lemma b64Value_b64Char: "n < 64 \<Longrightarrow> b64Value (b64Char n) = Some n"
  unfolding b64Value_def b64Char_def by (simp; arith)

lemma b64Char_not_pad: "n < 64 \<Longrightarrow> b64Char n \<noteq> 61"
  unfolding b64Char_def by (simp; arith)

lemma sextets:
  fixes a b c :: nat
  assumes "a < 256" "b < 256" "c < 256"
  shows "a div 4 < 64" "(a mod 4) * 16 < 64" "(a mod 4) * 16 + b div 16 < 64"
    "(b mod 16) * 4 < 64" "(b mod 16) * 4 + c div 64 < 64" "c mod 64 < 64"
  using assms by simp_all

lemma octets:
  fixes a b c :: nat
  assumes "a < 256" "b < 256" "c < 256"
  shows "a div 4 * 4 + (a mod 4) * 16 div 16 = a"
    "a div 4 * 4 + ((a mod 4) * 16 + b div 16) div 16 = a"
    "(((a mod 4) * 16 + b div 16) mod 16) * 16 + (b mod 16) * 4 div 4 = b"
    "(((a mod 4) * 16 + b div 16) mod 16) * 16 + ((b mod 16) * 4 + c div 64) div 4 = b"
    "(((b mod 16) * 4 + c div 64) mod 4) * 64 + c mod 64 = c"
  using assms by simp_all

lemma base64_roundtrip:
  "\<forall>a\<in>set ns. a < 256 \<Longrightarrow> base64Decode (base64Encode ns) = Some ns"
proof (induction ns rule: base64Encode.induct)
  case 1
  then show ?case by simp
next
  case (2 a)
  then have a: "a < 256" by simp
  show ?case
    using sextets [OF a a a] octets [OF a a a]
    by (simp add: b64Value_b64Char)
next
  case (3 a b)
  then have a: "a < 256" and b: "b < 256" by simp_all
  show ?case
    using sextets [OF a b b] octets [OF a b b]
    by (simp add: b64Value_b64Char b64Char_not_pad)
next
  case (4 a b c r)
  then have a: "a < 256" and b: "b < 256" and c: "c < 256"
    and ih: "base64Decode (base64Encode r) = Some r" by simp_all
  show ?case
    using sextets [OF a b c] octets [OF a b c]
    by (simp add: b64Value_b64Char b64Char_not_pad ih)
qed

lemma fromBase64_toBase64: "fromBase64 (toBase64 bs) = Some bs"
proof -
  have "unat b < 256" for b :: "8 word"
    using unsigned_less [of b, where 'a = nat] by simp
  then have "\<forall>a\<in>set (map unat bs). a < 256"
    by auto
  then have "base64Decode (base64Encode (map unat bs)) = Some (map unat bs)"
    by (rule base64_roundtrip)
  then show ?thesis
    by (simp add: fromBase64_def toBase64_def comp_def)
qed

lemma toBase64_pdf: "toBase64 [0x25, 0x50, 0x44, 0x46] = js ''JVBERg==''"
  by (simp add: toBase64_def b64Char_def js_def)

subsection \<open>The handler\<close>

lemma tool_names_distinct:
  "js ''extract_resume_data'' \<noteq> js ''list_templates''"
  "js ''generate_resume_html'' \<noteq> js ''list_templates''"
  "js ''generate_resume_html'' \<noteq> js ''extract_resume_data''"
  "js ''generate_resume'' \<noteq> js ''list_templates''"
  "js ''generate_resume'' \<noteq> js ''extract_resume_data''"
  "js ''generate_resume'' \<noteq> js ''generate_resume_html''"
  by (simp_all add: js_def)

lemma toolBody_known:
  "toolBody env lcx (js ''list_templates'') args = listTemplatesTool env"
  "toolBody env lcx (js ''extract_resume_data'') args = extractResumeDataTool env args"
  "toolBody env lcx (js ''generate_resume_html'') args = generateResumeHtmlTool env args"
  "toolBody env lcx (js ''generate_resume'') args = generateResumeTool env lcx args"
  by (simp_all add: toolBody_def tool_names_distinct)

lemma toolBody_unknown:
  "tool \<notin> set knownTools \<Longrightarrow> toolBody env lcx tool args = Inl (Error (js ''Unknown tool: '' @ tool))"
  by (auto simp: toolBody_def knownTools_def)

lemma callTool_isError: "isError (callTool env lcx tool args) = isl (toolBody env lcx tool args)"
  by (simp add: callTool_def split: sum.splits)

lemma callTool_throw:
  "toolBody env lcx tool args = Inl e \<Longrightarrow>
     callTool env lcx tool args = \<lparr>resultText = js ''Error: '' @ message e, isError = True\<rparr>"
  by (simp add: callTool_def)

lemma missingInput_throws: "missingInput tool args \<Longrightarrow> isl (toolBody env lcx tool args)"
  unfolding missingInput_def
  by (auto simp: toolBody_known extractResumeDataTool_def generateResumeHtmlTool_def
        generateResumeTool_def Let_def split: option.splits sum.splits)

lemma missingFile_throws: "missingFile env tool args \<Longrightarrow> isl (toolBody env lcx tool args)"
  unfolding missingFile_def
  by (auto simp: toolBody_known extractResumeDataTool_def split: option.splits)

lemma down_throws:
  assumes "isl (fetchTemplates env)" "\<forall>p. isl (fetchUpload env p)" "\<forall>r. isl (fetchRender env r)"
  shows "isl (toolBody env lcx tool args)"
proof -
  have t: "isl (listTemplatesTool env)"
    using assms(1) by (auto simp: listTemplatesTool_def split: sum.splits)
  have up: "\<exists>e. fetchUpload env p = Inl e" for p
    using assms(2) by (simp add: isl_def)
  have rn: "\<exists>e. fetchRender env r = Inl e" for r
    using assms(3) by (simp add: isl_def)
  have u: "isl (extractResumeDataTool env args)"
  proof (cases args)
    case None
    then show ?thesis by (simp add: extractResumeDataTool_def)
  next
    case (Some a)
    obtain e where "fetchUpload env (display (file_path a)) = Inl e" using up by blast
    then show ?thesis using Some by (simp add: extractResumeDataTool_def)
  qed
  have h: "isl (generateResumeHtmlTool env args)"
  proof (cases args)
    case None
    then show ?thesis by (simp add: generateResumeHtmlTool_def)
  next
    case (Some a)
    obtain e where "fetchRender env \<lparr>bodyTemplate = (if truthy (template_arg a) then template_arg a else defaultTemplate),
        bodyData = resume_data_arg a, bodyFormat = js ''html''\<rparr> = Inl e" using rn by blast
    then show ?thesis using Some by (simp add: generateResumeHtmlTool_def Let_def)
  qed
  have g: "isl (generateResumeTool env lcx args)"
  proof (cases args)
    case None
    then show ?thesis by (simp add: generateResumeTool_def)
  next
    case (Some a)
    show ?thesis
    proof (cases "formatOf lcx (format_arg a)")
      case (Inl e)
      then show ?thesis using Some by (simp add: generateResumeTool_def Let_def)
    next
      case (Inr fmt)
      obtain e where "fetchRender env \<lparr>bodyTemplate = (if truthy (template_arg a) then template_arg a else defaultTemplate),
          bodyData = resume_data_arg a, bodyFormat = fmt\<rparr> = Inl e" using rn by blast
      then show ?thesis using Some Inr by (simp add: generateResumeTool_def Let_def)
    qed
  qed
  show ?thesis
    using t u h g by (simp add: toolBody_def)
qed

lemma bad_json_throws:
  "fetchTemplates env = Inr res \<Longrightarrow> prettyJson env (bodyText res) = Inl e \<Longrightarrow>
     toolBody env lcx (js ''list_templates'') args = Inl e"
  by (simp add: toolBody_known listTemplatesTool_def)

lemma pdf_format:
  assumes "map asciiLower f = js ''pdf''"
  shows "toLowerCase lcx f = js ''pdf''"
proof -
  have "c < 128" if "c \<in> set f" for c
  proof -
    from that have "asciiLower c \<in> set (map asciiLower f)" by simp
    then have "asciiLower c \<in> {112, 100, 102}" unfolding assms by (simp add: js_def)
    then show ?thesis by (auto simp: asciiLower_def split: if_splits)
  qed
  then have "list_all (\<lambda>c. c < 128) f" by (simp add: list_all_iff)
  then show ?thesis using assms by (simp add: toLowerCase_def)
qed

lemma generate_pdf:
  assumes "truthy (resume_data_arg a)" "format_arg a = JString f" "map asciiLower f = js ''pdf''"
    and "fetchRender env \<lparr>bodyTemplate = (if truthy (template_arg a) then template_arg a else defaultTemplate),
           bodyData = resume_data_arg a, bodyFormat = js ''pdf''\<rparr> = Inr res"
  shows "callTool env lcx (js ''generate_resume'') (Some a)
           = \<lparr>resultText = pdfMarker @ toBase64 (bodyBytes res), isError = False\<rparr>"
proof -
  have f: "f \<noteq> []" using assms(3) by (auto simp: js_def)
  have "formatOf lcx (format_arg a) = Inr (js ''pdf'')"
    using pdf_format [OF assms(3)] f by (simp add: formatOf_def assms(2))
  then have "generateResumeTool env lcx (Some a) = Inr (pdfMarker @ toBase64 (bodyBytes res))"
    using assms(1,4) by (simp add: generateResumeTool_def Let_def)
  then show ?thesis by (simp add: callTool_def toolBody_known)
qed

lemma format_default: "formatOf lcx JUndefined = Inr (js ''html'')"
  by (simp add: formatOf_def toLowerCase_def js_def asciiLower_def)

lemma pdf_example:
  "callTool (servingEnv pdfResponse) plainLower (js ''generate_resume'') (Some pdfArgs)
     = \<lparr>resultText = js ''PDF_BASE64:JVBERg=='', isError = False\<rparr>"
proof -
  have "callTool (servingEnv pdfResponse) plainLower (js ''generate_resume'') (Some pdfArgs)
     = \<lparr>resultText = pdfMarker @ toBase64 (bodyBytes pdfResponse), isError = False\<rparr>"
    by (rule generate_pdf [where f = "js ''PDF''"])
       (simp_all add: pdfArgs_def noArgs_def servingEnv_def js_def asciiLower_def)
  then show ?thesis
    by (simp add: pdfResponse_def toBase64_pdf pdfMarker_def) (simp add: js_def)
qed

lemma failed_html:
  "callTool (servingEnv failedResponse) plainLower (js ''generate_resume'') (Some htmlArgs)
     = \<lparr>resultText = js ''oops'', isError = False\<rparr>"
  by (simp add: callTool_def toolBody_known generateResumeTool_def Let_def htmlArgs_def noArgs_def
        format_default servingEnv_def failedResponse_def)
     (simp add: js_def)

lemma failed_html_tool:
  "callTool (servingEnv failedResponse) plainLower (js ''generate_resume_html'') (Some htmlArgs)
     = \<lparr>resultText = js ''oops'', isError = False\<rparr>"
  by (simp add: callTool_def toolBody_known generateResumeHtmlTool_def Let_def htmlArgs_def noArgs_def
        servingEnv_def failedResponse_def)

lemma no_file_example:
  "callTool downEnv plainLower (js ''extract_resume_data'') (Some noFileArgs)
     = \<lparr>resultText = js ''Error: file not found: /no/such/file.pdf'', isError = True\<rparr>"
  by (simp add: callTool_def toolBody_known extractResumeDataTool_def noFileArgs_def noArgs_def
        existsSync_def downEnv_def)
     (simp add: js_def)

text \<open>
  C5: when \<open>generate_resume\<close> is called with resume data and a format that reads
  \<open>pdf\<close> in any letter case, and the rendering service answers with a body, the result
  is a text, not tagged as an error, that begins with the marker \<open>PDF_BASE64:\<close>; what
  follows the marker is the base64 encoding of the bytes of the body, and decoding it
  gives back exactly these bytes. An absent format is \<open>html\<close>.
\<close>

theorem generate_resume_pdf_base64:
  assumes "truthy (resume_data_arg a)" "format_arg a = JString f" "map asciiLower f = js ''pdf''"
    and "fetchRender env \<lparr>bodyTemplate = (if truthy (template_arg a) then template_arg a else defaultTemplate),
           bodyData = resume_data_arg a, bodyFormat = js ''pdf''\<rparr> = Inr res"
  shows "prefix pdfMarker (resultText (callTool env lcx (js ''generate_resume'') (Some a)))
       \<and> \<not> isError (callTool env lcx (js ''generate_resume'') (Some a))
       \<and> drop (length pdfMarker) (resultText (callTool env lcx (js ''generate_resume'') (Some a)))
           = toBase64 (bodyBytes res)
       \<and> fromBase64 (drop (length pdfMarker)
             (resultText (callTool env lcx (js ''generate_resume'') (Some a))))
           = Some (bodyBytes res)
       \<and> formatOf lcx JUndefined = Inr (js ''html'')"
  unfolding generate_pdf [OF assms]
  by (simp add: fromBase64_toBase64 format_default)

theorem generate_resume_pdf_base64_witness:
  "truthy (resume_data_arg pdfArgs) \<and> format_arg pdfArgs = JString (js ''PDF'')
   \<and> map asciiLower (js ''PDF'') = js ''pdf''
   \<and> resultText (callTool (servingEnv pdfResponse) plainLower (js ''generate_resume'') (Some pdfArgs))
       = js ''PDF_BASE64:JVBERg==''
   \<and> fromBase64 (drop (length pdfMarker) (js ''PDF_BASE64:JVBERg=='')) = Some [0x25, 0x50, 0x44, 0x46]"
proof -
  have a: "truthy (resume_data_arg pdfArgs)" "format_arg pdfArgs = JString (js ''PDF'')"
    by (simp_all add: pdfArgs_def noArgs_def)
  have b: "map asciiLower (js ''PDF'') = js ''pdf''"
    by (simp add: js_def asciiLower_def)
  have c: "fetchRender (servingEnv pdfResponse)
      \<lparr>bodyTemplate = (if truthy (template_arg pdfArgs) then template_arg pdfArgs else defaultTemplate),
       bodyData = resume_data_arg pdfArgs, bodyFormat = js ''pdf''\<rparr> = Inr pdfResponse"
    by (simp add: servingEnv_def)
  have d: "bodyBytes pdfResponse = [0x25, 0x50, 0x44, 0x46]"
    by (simp add: pdfResponse_def)
  have t: "resultText (callTool (servingEnv pdfResponse) plainLower (js ''generate_resume'') (Some pdfArgs))
             = js ''PDF_BASE64:JVBERg==''"
    by (simp add: pdf_example)
  have "fromBase64 (drop (length pdfMarker)
          (resultText (callTool (servingEnv pdfResponse) plainLower (js ''generate_resume'') (Some pdfArgs))))
        = Some (bodyBytes pdfResponse)"
    using generate_resume_pdf_base64 [OF a b c, of plainLower] by blast
  then have r: "fromBase64 (drop (length pdfMarker) (js ''PDF_BASE64:JVBERg==''))
                  = Some [0x25, 0x50, 0x44, 0x46]"
    by (simp only: t d)
  show ?thesis
    using a b t r by blast
qed

text \<open>
  C6: a non-success status of the rendering service surfaces as a generation error. The
  adapter's \<open>generate_resume\<close> does not look at the status: on a response of status 500
  with body \<open>oops\<close> it returns the body as the generated text, not tagged as an error.
\<close>

theorem generate_resume_tool_ignores_status:
  "status failedResponse = 500 \<and> \<not> ok failedResponse
   \<and> callTool (servingEnv failedResponse) plainLower (js ''generate_resume'') (Some htmlArgs)
       = \<lparr>resultText = js ''oops'', isError = False\<rparr>"
  using failed_html by (simp add: failedResponse_def ok_def)

text \<open>
  The API client of the web page does check the status: the same response becomes an
  exception whose message carries the status code and the body text, after exactly one
  request.
\<close>

lemma generateResume_failed_response:
  "generateResume (\<lambda>r. Inr failedResponse) w req
     = (Inl (Error (js ''Generation failed (500): oops'')), w\<lparr>sent := sent w @ [req]\<rparr>)"
proof -
  have "\<not> ok failedResponse" by (simp add: failedResponse_def ok_def)
  then show ?thesis
    using generateResume_failure [of "\<lambda>r. Inr failedResponse" req failedResponse w]
    by (simp add: failedResponse_def) (simp add: js_def)
qed

text \<open>
  C7: every operation of the adapter turns every internal failure, a failure of a
  collaborator included, into a result tagged as an error. The code does not do so when
  the collaborator fails by answering with a non-success status: \<open>generate_resume_html\<close>
  never reads \<open>res.ok\<close> or \<open>res.status\<close>, and on a response of status 500 with body
  \<open>oops\<close> it returns the body as the generated HTML, not tagged as an error.
\<close>

theorem generate_resume_html_tool_ignores_status:
  "status failedResponse = 500 \<and> \<not> ok failedResponse
   \<and> fetchRender (servingEnv failedResponse)
        \<lparr>bodyTemplate = defaultTemplate, bodyData = resume_data_arg htmlArgs, bodyFormat = js ''html''\<rparr>
       = Inr failedResponse
   \<and> callTool (servingEnv failedResponse) plainLower (js ''generate_resume_html'') (Some htmlArgs)
       = \<lparr>resultText = js ''oops'', isError = False\<rparr>"
  using failed_html_tool by (simp add: failedResponse_def ok_def servingEnv_def)

text \<open>
  What the handler does catch is every exception: the whole switch is inside one
  \<open>try\<close>. An unknown tool name, a missing required input, a path that does not exist
  and collaborators whose calls fail each give an error result; whatever exception \<open>e\<close>
  the body throws, the result is the text \<open>Error: \<close> followed by its message, tagged as
  an error.
\<close>

lemma callTool_exceptions_are_error_results:
  "(tool \<notin> set knownTools \<longrightarrow> isError (callTool env lcx tool args))
   \<and> (missingInput tool args \<longrightarrow> isError (callTool env lcx tool args))
   \<and> (missingFile env tool args \<longrightarrow> isError (callTool env lcx tool args))
   \<and> (isl (fetchTemplates env) \<and> (\<forall>p. isl (fetchUpload env p)) \<and> (\<forall>r. isl (fetchRender env r))
        \<longrightarrow> isError (callTool env lcx tool args))
   \<and> (toolBody env lcx tool args = Inl e \<longrightarrow>
        callTool env lcx tool args = \<lparr>resultText = js ''Error: '' @ message e, isError = True\<rparr>)"
  using toolBody_unknown [of tool env lcx args] missingInput_throws [of tool args env lcx]
    missingFile_throws [of env tool args lcx] down_throws [of env lcx tool args]
    callTool_throw [of env lcx tool args e]
  by (auto simp: callTool_isError)

lemma callTool_exceptions_example:
  "js ''no_such_tool'' \<notin> set knownTools
   \<and> isError (callTool downEnv plainLower (js ''no_such_tool'') None)
   \<and> missingInput (js ''generate_resume'') (Some noArgs)
   \<and> isError (callTool downEnv plainLower (js ''generate_resume'') (Some noArgs))
   \<and> missingFile downEnv (js ''extract_resume_data'') (Some noFileArgs)
   \<and> isl (fetchTemplates downEnv) \<and> (\<forall>p. isl (fetchUpload downEnv p))
   \<and> (\<forall>r. isl (fetchRender downEnv r))
   \<and> toolBody downEnv plainLower (js ''extract_resume_data'') (Some noFileArgs)
       = Inl (Error (js ''file not found: /no/such/file.pdf''))
   \<and> callTool downEnv plainLower (js ''extract_resume_data'') (Some noFileArgs)
       = \<lparr>resultText = js ''Error: '' @ message (Error (js ''file not found: /no/such/file.pdf'')),
          isError = True\<rparr>"
proof -
  have u: "js ''no_such_tool'' \<notin> set knownTools"
    by (simp add: knownTools_def js_def)
  have m: "missingInput (js ''generate_resume'') (Some noArgs)"
    by (simp add: missingInput_def noArgs_def)
  have f: "missingFile downEnv (js ''extract_resume_data'') (Some noFileArgs)"
    by (simp add: missingFile_def existsSync_def noFileArgs_def noArgs_def downEnv_def)
  have d: "isl (fetchTemplates downEnv)" "\<forall>p. isl (fetchUpload downEnv p)"
    "\<forall>r. isl (fetchRender downEnv r)"
    by (simp_all add: downEnv_def)
  have b: "toolBody downEnv plainLower (js ''extract_resume_data'') (Some noFileArgs)
             = Inl (Error (js ''file not found: /no/such/file.pdf''))"
    by (simp add: toolBody_known extractResumeDataTool_def noFileArgs_def noArgs_def
          existsSync_def downEnv_def) (simp add: js_def)
  show ?thesis
    using callTool_exceptions_are_error_results [of "js ''no_such_tool''" downEnv plainLower None]
      callTool_exceptions_are_error_results [of "js ''generate_resume''" downEnv plainLower "Some noArgs"]
      callTool_exceptions_are_error_results [of "js ''extract_resume_data''" downEnv plainLower
        "Some noFileArgs" "Error (js ''file not found: /no/such/file.pdf'')"]
      u m f d b
    by blast
qed

section \<open>Properties of the enhancement on the heap\<close>

lemma assign_last: "assign (h @ [v]) (length h) f = h @ [f v]"
  by (simp add: assign_def)

lemma enhanceResumeHeap_result:
  "readObj h data = Some d \<Longrightarrow>
     enhanceResumeHeap ucx lcx h data = Some (h @ [enhanceResume ucx lcx d], length h)"
  by (simp add: enhanceResumeHeap_def alloc_def assign_last enhanceResume_def)

lemma readObj_append: "a < length h \<Longrightarrow> readObj (h @ [v]) a = readObj h a"
  by (simp add: readObj_def nth_append)

lemma readObj_new: "readObj (h @ [v]) (length h) = Some v"
  by (simp add: readObj_def)

lemma readObj_bound: "readObj h a = Some d \<Longrightarrow> a < length h"
  by (simp add: readObj_def split: if_splits)

text \<open>
  Had the function assigned to the object it was given instead of the clone, the
  caller's object would change: the store does tell the two apart.
\<close>

lemma in_place_would_change:
  "assign [reactDraft] 0 summaryStep \<noteq> [reactDraft]"
proof -
  have "summary (summaryStep reactDraft) \<noteq> summary reactDraft"
    by (simp add: summaryStep_def reactDraft_fields)
  then have "summaryStep reactDraft \<noteq> reactDraft" by auto
  then show ?thesis by (simp add: assign_def)
qed

text \<open>
  C9: called on the object at address \<open>data\<close>, \<open>enhanceResume\<close> returns and its only
  effect on the store is one new object, the clone, which holds the enhanced value and
  whose address it returns; the object it was given and every other object that existed
  before the call are unchanged, and the result depends on the content of the input
  alone.
\<close>

theorem enhanceResumeHeap_leaves_input:
  assumes "readObj h data = Some d"
  shows "enhanceResumeHeap ucx lcx h data = Some (h @ [enhanceResume ucx lcx d], length h)
       \<and> readObj (h @ [enhanceResume ucx lcx d]) data = Some d
       \<and> (\<forall>a. a < length h \<longrightarrow> readObj (h @ [enhanceResume ucx lcx d]) a = readObj h a)
       \<and> length h \<noteq> data
       \<and> readObj (h @ [enhanceResume ucx lcx d]) (length h) = Some (enhanceResume ucx lcx d)"
  using assms readObj_bound [OF assms]
  by (simp add: enhanceResumeHeap_result readObj_append readObj_new)

theorem enhanceResumeHeap_leaves_input_witness:
  "readObj [reactDraft] 0 = Some reactDraft
   \<and> enhanceResumeHeap plainUpper plainLower [reactDraft] 0
       = Some ([reactDraft, enhanceResume plainUpper plainLower reactDraft], 1)
   \<and> (0::nat) < length [reactDraft]
   \<and> readObj [reactDraft, enhanceResume plainUpper plainLower reactDraft] 0 = readObj [reactDraft] 0"
proof -
  have r: "readObj [reactDraft] 0 = Some reactDraft"
    by (simp add: readObj_def)
  show ?thesis
    using enhanceResumeHeap_leaves_input [OF r, of plainUpper plainLower] r
    by simp
qed

end
